theory Spec2Isabelle
  imports Complex_Main
begin

section \<open>GoogLeNet notebook: the Inception block and the assembled network\<close>

text \<open>
  The notebook \<^verbatim>\<open>chapter_convolutional-modern/googlenet.ipynb\<close> defines one class,
  \<^verbatim>\<open>Inception\<close>, assembles the network \<^verbatim>\<open>net\<close> from five \<^verbatim>\<open>nn.Sequential\<close> groups and a
  dense layer, prints the output shape of every top-level layer and starts a training run.
  Every numeric operation is a call into the libraries the notebook imports
  (\<^verbatim>\<open>mxnet.gluon.nn\<close>, \<^verbatim>\<open>mxnet.nd\<close>, \<^verbatim>\<open>mxnet.init\<close>, \<^verbatim>\<open>mxnet.gluon\<close>, \<^verbatim>\<open>d2l\<close>).

  The embedding keeps the two sides apart. The library is a parameter: a record of its
  entry points, each a state-passing function that may fail. The notebook's own code is
  translated statement by statement on top of that record.
\<close>

subsection \<open>Library calls: state passing with exceptions\<close>

text \<open>
  A call takes the state of the library (layer weights, the storage of the arrays, name
  counters, devices) and returns either the exception it raised (\<open>Inl\<close>) or its value
  (\<open>Inr\<close>), together with the state it left behind.
\<close>

type_synonym ('a, 'w, 'e) prog = "'w \<Rightarrow> ('e + 'a) \<times> 'w"

definition returnp :: "'a \<Rightarrow> ('a, 'w, 'e) prog" where
  "returnp a = (\<lambda>s. (Inr a, s))"

text \<open>
  Sequencing of two statements. Python has no handler between them in this notebook, so an
  exception of the first statement ends the sequence with that exception and with the state
  as the first statement left it.
\<close>

definition bindp :: "('a, 'w, 'e) prog \<Rightarrow> ('a \<Rightarrow> ('b, 'w, 'e) prog) \<Rightarrow> ('b, 'w, 'e) prog" where
  "bindp m f = (\<lambda>s. case m s of (Inl e, s') \<Rightarrow> (Inl e, s') | (Inr a, s') \<Rightarrow> f a s')"

subsection \<open>The class \<^verbatim>\<open>Inception\<close>\<close>

text \<open>
  An instance holds what \<^verbatim>\<open>__init__\<close> stores: the part set up by the base class
  \<^verbatim>\<open>nn.Block\<close> and the seven layer objects \<^verbatim>\<open>p1_1\<close> .. \<^verbatim>\<open>p4_2\<close>. \<open>'l\<close> is the type of the
  library's objects. Assigning a layer to an attribute of a block also makes it a child of
  that block; the record is the list of these children by name.
\<close>

record 'l Inception =
  block_base :: 'l
  p1_1 :: 'l
  p2_1 :: 'l
  p2_2 :: 'l
  p3_1 :: 'l
  p3_2 :: 'l
  p4_1 :: 'l
  p4_2 :: 'l

text \<open>
  A block is a library layer, an \<^verbatim>\<open>Inception\<close> instance, or an \<^verbatim>\<open>nn.Sequential\<close> container:
  the container object itself and the children added to it, in the order of addition.
\<close>

datatype 'l block =
    Layer 'l
  | Incep "'l Inception"
  | Sequential "'l \<times> 'l block list"

type_synonym 'l sequential = "'l \<times> 'l block list"

subsection \<open>The library\<close>

text \<open>
  The entry points the notebook calls, with the arguments it passes. A keyword argument
  that some call sites leave out is an \<open>option\<close> (\<open>None\<close>: not passed, the library's default
  applies). \<open>'t\<close> is the type of arrays (\<^verbatim>\<open>NDArray\<close>), \<open>'w\<close> the library's state, \<open>'e\<close> its
  exceptions.

  \<^item> \<open>nn_Block_init\<close>: \<^verbatim>\<open>nn.Block.__init__(**kwargs)\<close>, with no keyword passed;
  \<^item> \<open>nn_Conv2D channels kernel_size strides padding activation\<close>;
  \<^item> \<open>nn_MaxPool2D pool_size strides padding\<close>;
  \<^item> \<open>Block_call layer x\<close>: \<^verbatim>\<open>layer(x)\<close> for a layer object of the library;
  \<^item> \<open>nd_concat arrays dim\<close>: \<^verbatim>\<open>nd.concat(*arrays, dim=dim)\<close>;
  \<^item> \<open>Block_initialize net force_reinit ctx init\<close>: \<^verbatim>\<open>net.initialize(...)\<close>;
  \<^item> \<open>Block_name\<close>, \<open>NDArray_shape\<close>: the attributes \<^verbatim>\<open>.name\<close> and \<^verbatim>\<open>.shape\<close>;
  \<^item> \<open>gluon_Trainer params optimizer optimizer_params\<close>;
  \<^item> \<open>d2l_load_data_fashion_mnist batch_size resize\<close>;
  \<^item> \<open>d2l_train_ch5 net train_iter test_iter batch_size trainer ctx num_epochs\<close>.
\<close>

record ('l, 't, 'w, 'e) library =
  nn_Block_init :: "('l, 'w, 'e) prog"
  nn_Conv2D :: "nat \<Rightarrow> nat \<Rightarrow> nat option \<Rightarrow> nat option \<Rightarrow> string option \<Rightarrow> ('l, 'w, 'e) prog"
  nn_MaxPool2D :: "nat \<Rightarrow> nat \<Rightarrow> nat \<Rightarrow> ('l, 'w, 'e) prog"
  nn_GlobalAvgPool2D :: "('l, 'w, 'e) prog"
  nn_Dense :: "nat \<Rightarrow> ('l, 'w, 'e) prog"
  nn_Sequential :: "('l, 'w, 'e) prog"
  Block_call :: "'l \<Rightarrow> 't \<Rightarrow> ('t, 'w, 'e) prog"
  nd_concat :: "'t list \<Rightarrow> nat \<Rightarrow> ('t, 'w, 'e) prog"
  nd_random_uniform :: "nat list \<Rightarrow> ('t, 'w, 'e) prog"
  Block_initialize :: "'l block \<Rightarrow> bool option \<Rightarrow> 'l option \<Rightarrow> 'l option \<Rightarrow> (unit, 'w, 'e) prog"
  Block_collect_params :: "'l block \<Rightarrow> ('l, 'w, 'e) prog"
  Block_name :: "'l \<Rightarrow> string"
  NDArray_shape :: "'t \<Rightarrow> nat list"
  d2l_try_gpu :: "('l, 'w, 'e) prog"
  init_Xavier :: "('l, 'w, 'e) prog"
  gluon_Trainer :: "'l \<Rightarrow> string \<Rightarrow> (string \<times> real) list \<Rightarrow> ('l, 'w, 'e) prog"
  d2l_load_data_fashion_mnist :: "nat \<Rightarrow> nat option \<Rightarrow> ('l \<times> 'l, 'w, 'e) prog"
  d2l_train_ch5 :: "'l block \<Rightarrow> 'l \<Rightarrow> 'l \<Rightarrow> nat \<Rightarrow> 'l \<Rightarrow> 'l \<Rightarrow> nat \<Rightarrow> (unit, 'w, 'e) prog"

subsection \<open>\<^verbatim>\<open>Inception.__init__\<close> and \<^verbatim>\<open>Inception.forward\<close>\<close>

text \<open>
  \<^verbatim>\<open>__init__(self, c1, c2, c3, c4)\<close>: the base class is set up first, then the seven layers
  are constructed in the order of the assignments. \<^verbatim>\<open>c2\<close> and \<^verbatim>\<open>c3\<close> are pairs at every
  call site; \<^verbatim>\<open>c2[0]\<close> is \<open>fst c2\<close> and \<^verbatim>\<open>c2[1]\<close> is \<open>snd c2\<close>.
\<close>

definition Inception_init ::
  "('l, 't, 'w, 'e) library \<Rightarrow> nat \<Rightarrow> nat \<times> nat \<Rightarrow> nat \<times> nat \<Rightarrow> nat \<Rightarrow> ('l Inception, 'w, 'e) prog" where
  "Inception_init fw c1 c2 c3 c4 =
     bindp (nn_Block_init fw) (\<lambda>base.
     bindp (nn_Conv2D fw c1 1 None None (Some ''relu'')) (\<lambda>l11.
     bindp (nn_Conv2D fw (fst c2) 1 None None (Some ''relu'')) (\<lambda>l21.
     bindp (nn_Conv2D fw (snd c2) 3 None (Some 1) (Some ''relu'')) (\<lambda>l22.
     bindp (nn_Conv2D fw (fst c3) 1 None None (Some ''relu'')) (\<lambda>l31.
     bindp (nn_Conv2D fw (snd c3) 5 None (Some 2) (Some ''relu'')) (\<lambda>l32.
     bindp (nn_MaxPool2D fw 3 1 1) (\<lambda>l41.
     bindp (nn_Conv2D fw c4 1 None None (Some ''relu'')) (\<lambda>l42.
     returnp \<lparr>block_base = base, p1_1 = l11, p2_1 = l21, p2_2 = l22,
              p3_1 = l31, p3_2 = l32, p4_1 = l41, p4_2 = l42\<rparr>))))))))"

text \<open>
  \<^verbatim>\<open>forward(self, x)\<close>: seven layer calls in the order Python evaluates them (the inner
  call of \<^verbatim>\<open>self.p2_2(self.p2_1(x))\<close> first), then \<^verbatim>\<open>nd.concat(p1, p2, p3, p4, dim=1)\<close>.
\<close>

definition Inception_forward ::
  "('l, 't, 'w, 'e) library \<Rightarrow> 'l Inception \<Rightarrow> 't \<Rightarrow> ('t, 'w, 'e) prog" where
  "Inception_forward fw self x =
     bindp (Block_call fw (p1_1 self) x) (\<lambda>p1.
     bindp (Block_call fw (p2_1 self) x) (\<lambda>t2.
     bindp (Block_call fw (p2_2 self) t2) (\<lambda>p2.
     bindp (Block_call fw (p3_1 self) x) (\<lambda>t3.
     bindp (Block_call fw (p3_2 self) t3) (\<lambda>p3.
     bindp (Block_call fw (p4_1 self) x) (\<lambda>t4.
     bindp (Block_call fw (p4_2 self) t4) (\<lambda>p4.
     nd_concat fw [p1, p2, p3, p4] 1)))))))"

text \<open>
  The four expressions whose values \<^verbatim>\<open>forward\<close> binds to \<^verbatim>\<open>p1\<close>, \<^verbatim>\<open>p2\<close>, \<^verbatim>\<open>p3\<close> and \<^verbatim>\<open>p4\<close>,
  each as a computation on its own.
\<close>

definition path1 :: "('l, 't, 'w, 'e) library \<Rightarrow> 'l Inception \<Rightarrow> 't \<Rightarrow> ('t, 'w, 'e) prog" where
  "path1 fw self x = Block_call fw (p1_1 self) x"

definition path2 :: "('l, 't, 'w, 'e) library \<Rightarrow> 'l Inception \<Rightarrow> 't \<Rightarrow> ('t, 'w, 'e) prog" where
  "path2 fw self x = bindp (Block_call fw (p2_1 self) x) (Block_call fw (p2_2 self))"

definition path3 :: "('l, 't, 'w, 'e) library \<Rightarrow> 'l Inception \<Rightarrow> 't \<Rightarrow> ('t, 'w, 'e) prog" where
  "path3 fw self x = bindp (Block_call fw (p3_1 self) x) (Block_call fw (p3_2 self))"

definition path4 :: "('l, 't, 'w, 'e) library \<Rightarrow> 'l Inception \<Rightarrow> 't \<Rightarrow> ('t, 'w, 'e) prog" where
  "path4 fw self x = bindp (Block_call fw (p4_1 self) x) (Block_call fw (p4_2 self))"

text \<open>
  Calling a block. A library layer is called through the library; an \<^verbatim>\<open>Inception\<close>
  instance runs its \<^verbatim>\<open>forward\<close>; an \<^verbatim>\<open>nn.Sequential\<close> passes the input through its children
  in the order they were added.
\<close>

fun forward :: "('l, 't, 'w, 'e) library \<Rightarrow> 'l block \<Rightarrow> 't \<Rightarrow> ('t, 'w, 'e) prog"
  and forward_children :: "('l, 't, 'w, 'e) library \<Rightarrow> 'l block list \<Rightarrow> 't \<Rightarrow> ('t, 'w, 'e) prog" where
  "forward fw (Layer l) x = Block_call fw l x"
| "forward fw (Incep self) x = Inception_forward fw self x"
| "forward fw (Sequential (h, bs)) x = forward_children fw bs x"
| "forward_children fw [] x = returnp x"
| "forward_children fw (b # bs) x = bindp (forward fw b x) (\<lambda>y. forward_children fw bs y)"

subsection \<open>The five groups and \<^verbatim>\<open>net\<close>\<close>

text \<open>
  Each cell creates an empty \<^verbatim>\<open>nn.Sequential\<close> and then calls \<^verbatim>\<open>add\<close> once; Python
  constructs the arguments of \<^verbatim>\<open>add\<close> from left to right before the call. The children of
  the resulting container are the arguments of that one \<^verbatim>\<open>add\<close>, in order.
\<close>

definition build_b1 :: "('l, 't, 'w, 'e) library \<Rightarrow> ('l sequential, 'w, 'e) prog" where
  "build_b1 fw =
     bindp (nn_Sequential fw) (\<lambda>b1.
     bindp (nn_Conv2D fw 64 7 (Some 2) (Some 3) (Some ''relu'')) (\<lambda>l1.
     bindp (nn_MaxPool2D fw 3 2 1) (\<lambda>l2.
     returnp (b1, [Layer l1, Layer l2]))))"

definition build_b2 :: "('l, 't, 'w, 'e) library \<Rightarrow> ('l sequential, 'w, 'e) prog" where
  "build_b2 fw =
     bindp (nn_Sequential fw) (\<lambda>b2.
     bindp (nn_Conv2D fw 64 1 None None (Some ''relu'')) (\<lambda>l1.
     bindp (nn_Conv2D fw 192 3 None (Some 1) (Some ''relu'')) (\<lambda>l2.
     bindp (nn_MaxPool2D fw 3 2 1) (\<lambda>l3.
     returnp (b2, [Layer l1, Layer l2, Layer l3])))))"

definition build_b3 :: "('l, 't, 'w, 'e) library \<Rightarrow> ('l sequential, 'w, 'e) prog" where
  "build_b3 fw =
     bindp (nn_Sequential fw) (\<lambda>b3.
     bindp (Inception_init fw 64 (96, 128) (16, 32) 32) (\<lambda>i1.
     bindp (Inception_init fw 128 (128, 192) (32, 96) 64) (\<lambda>i2.
     bindp (nn_MaxPool2D fw 3 2 1) (\<lambda>l3.
     returnp (b3, [Incep i1, Incep i2, Layer l3])))))"

definition build_b4 :: "('l, 't, 'w, 'e) library \<Rightarrow> ('l sequential, 'w, 'e) prog" where
  "build_b4 fw =
     bindp (nn_Sequential fw) (\<lambda>b4.
     bindp (Inception_init fw 192 (96, 208) (16, 48) 64) (\<lambda>i1.
     bindp (Inception_init fw 160 (112, 224) (24, 64) 64) (\<lambda>i2.
     bindp (Inception_init fw 128 (128, 256) (24, 64) 64) (\<lambda>i3.
     bindp (Inception_init fw 112 (144, 288) (32, 64) 64) (\<lambda>i4.
     bindp (Inception_init fw 256 (160, 320) (32, 128) 128) (\<lambda>i5.
     bindp (nn_MaxPool2D fw 3 2 1) (\<lambda>l6.
     returnp (b4, [Incep i1, Incep i2, Incep i3, Incep i4, Incep i5, Layer l6]))))))))"

definition build_b5 :: "('l, 't, 'w, 'e) library \<Rightarrow> ('l sequential, 'w, 'e) prog" where
  "build_b5 fw =
     bindp (nn_Sequential fw) (\<lambda>b5.
     bindp (Inception_init fw 256 (160, 320) (32, 128) 128) (\<lambda>i1.
     bindp (Inception_init fw 384 (192, 384) (48, 128) 128) (\<lambda>i2.
     bindp (nn_GlobalAvgPool2D fw) (\<lambda>l3.
     returnp (b5, [Incep i1, Incep i2, Layer l3])))))"

text \<open>\<^verbatim>\<open>net = nn.Sequential(); net.add(b1, b2, b3, b4, b5, nn.Dense(10))\<close>\<close>

definition build_net ::
  "('l, 't, 'w, 'e) library \<Rightarrow> 'l sequential \<Rightarrow> 'l sequential \<Rightarrow> 'l sequential \<Rightarrow> 'l sequential \<Rightarrow>
     'l sequential \<Rightarrow> ('l sequential, 'w, 'e) prog" where
  "build_net fw b1 b2 b3 b4 b5 =
     bindp (nn_Sequential fw) (\<lambda>net.
     bindp (nn_Dense fw 10) (\<lambda>d.
     returnp (net, [Sequential b1, Sequential b2, Sequential b3, Sequential b4,
                    Sequential b5, Layer d])))"

text \<open>The code cells 2 to 6 of the notebook, run top to bottom.\<close>

definition assemble :: "('l, 't, 'w, 'e) library \<Rightarrow> ('l sequential, 'w, 'e) prog" where
  "assemble fw =
     bindp (build_b1 fw) (\<lambda>b1.
     bindp (build_b2 fw) (\<lambda>b2.
     bindp (build_b3 fw) (\<lambda>b3.
     bindp (build_b4 fw) (\<lambda>b4.
     bindp (build_b5 fw) (\<lambda>b5.
     build_net fw b1 b2 b3 b4 b5)))))"

subsection \<open>The shape-printing cell\<close>

text \<open>
  The object whose \<^verbatim>\<open>.name\<close> a block carries: the layer itself, the base-class part of an
  \<^verbatim>\<open>Inception\<close> instance, the container object of an \<^verbatim>\<open>nn.Sequential\<close>.
\<close>

fun block_object :: "'l block \<Rightarrow> 'l" where
  "block_object (Layer l) = l"
| "block_object (Incep self) = block_base self"
| "block_object (Sequential (h, bs)) = h"

text \<open>
  \<^verbatim>\<open>for layer in net: X = layer(X); print(layer.name, 'output shape:\t', X.shape)\<close>.
  The loop carries \<^verbatim>\<open>X\<close> and what has been printed so far; one printed line is the triple
  of the arguments of \<^verbatim>\<open>print\<close>.
\<close>

type_synonym printed = "string \<times> string \<times> nat list"

fun shape_loop ::
  "('l, 't, 'w, 'e) library \<Rightarrow> 'l block list \<Rightarrow> 't \<Rightarrow> printed list \<Rightarrow> ('t \<times> printed list, 'w, 'e) prog" where
  "shape_loop fw [] X out = returnp (X, out)"
| "shape_loop fw (layer # rest) X out =
     bindp (forward fw layer X) (\<lambda>X'.
     shape_loop fw rest X'
       (out @ [(Block_name fw (block_object layer), ''output shape:'' @ [CHR 0x09], NDArray_shape fw X')]))"

definition shape_cell ::
  "('l, 't, 'w, 'e) library \<Rightarrow> 'l sequential \<Rightarrow> ('t \<times> printed list, 'w, 'e) prog" where
  "shape_cell fw net =
     bindp (nd_random_uniform fw [1, 1, 96, 96]) (\<lambda>X.
     bindp (Block_initialize fw (Sequential net) None None None) (\<lambda>_.
     shape_loop fw (snd net) X []))"

subsection \<open>The training cell\<close>

text \<open>
  \<^verbatim>\<open>lr, num_epochs, batch_size, ctx = 0.1, 5, 128, d2l.try_gpu()\<close> and the four statements
  after it. The learning rate is only passed on, never computed with; it is kept as the
  number the literal denotes.
\<close>

definition training_cell :: "('l, 't, 'w, 'e) library \<Rightarrow> 'l sequential \<Rightarrow> (unit, 'w, 'e) prog" where
  "training_cell fw net =
     (let lr = 0.1; num_epochs = 5; batch_size = 128 in
      bindp (d2l_try_gpu fw) (\<lambda>ctx.
      bindp (init_Xavier fw) (\<lambda>xavier.
      bindp (Block_initialize fw (Sequential net) (Some True) (Some ctx) (Some xavier)) (\<lambda>_.
      bindp (Block_collect_params fw (Sequential net)) (\<lambda>params.
      bindp (gluon_Trainer fw params ''sgd'' [(''learning_rate'', lr)]) (\<lambda>trainer.
      bindp (d2l_load_data_fashion_mnist fw batch_size (Some 96)) (\<lambda>(train_iter, test_iter).
      d2l_train_ch5 fw (Sequential net) train_iter test_iter batch_size trainer ctx
        num_epochs)))))))"

subsection \<open>A shape interpretation of the library\<close>

text \<open>
  The library is not part of the repository. For the statements about channel counts and
  output shapes it is interpreted by the shape rules its documentation gives: an array
  is its shape, an object is the constructor call that made it, and the state is the list
  of training runs started so far.
\<close>

datatype obj =
    Block_obj
  | Conv2D_obj nat nat "nat option" "nat option" "string option"
  | MaxPool2D_obj nat nat nat
  | GlobalAvgPool2D_obj
  | Dense_obj nat
  | Sequential_obj
  | Context_obj
  | Xavier_obj
  | Params_obj
  | Trainer_obj obj string "(string \<times> real) list"
  | DataLoader_obj bool nat "nat option"

datatype lib_error = Shape_error | Not_a_layer | Not_initialized

record train_run =
  run_net :: "obj block"
  run_train_iter :: obj
  run_test_iter :: obj
  run_batch_size :: nat
  run_trainer :: obj
  run_ctx :: obj
  run_num_epochs :: nat

text \<open>
  Output extent of a convolution or pooling window along one axis, for input extent \<open>i\<close>,
  window \<open>k\<close>, stride \<open>s\<close> and padding \<open>p\<close>: \<open>\<lfloor>(i + 2p - k) / s\<rfloor> + 1\<close>. The library rejects a
  window larger than the padded input.
\<close>

definition out_size :: "nat \<Rightarrow> nat \<Rightarrow> nat \<Rightarrow> nat \<Rightarrow> nat option" where
  "out_size i k s p =
     (if s = 0 \<or> k = 0 \<or> i + 2 * p < k then None else Some ((i + 2 * p - k) div s + 1))"

definition window_shape :: "nat \<Rightarrow> nat \<Rightarrow> nat \<Rightarrow> nat \<Rightarrow> nat \<Rightarrow> nat \<Rightarrow> nat \<Rightarrow> lib_error + nat list" where
  "window_shape n c h w k s p =
     (case out_size h k s p of
        None \<Rightarrow> Inl Shape_error
      | Some h' \<Rightarrow>
          (case out_size w k s p of
             None \<Rightarrow> Inl Shape_error
           | Some w' \<Rightarrow> Inr [n, c, h', w']))"

text \<open>
  The shape a layer returns for a batch in the layout (batch, channel, height, width).
  A convolution without \<^verbatim>\<open>strides\<close> has stride 1, without \<^verbatim>\<open>padding\<close> padding 0; the
  activation leaves the shape alone. \<^verbatim>\<open>Dense\<close> flattens all axes after the first.
\<close>

fun ref_call :: "obj \<Rightarrow> nat list \<Rightarrow> lib_error + nat list" where
  "ref_call (Conv2D_obj channels k strides padding act) [n, c, h, w] =
     window_shape n channels h w k (case strides of None \<Rightarrow> 1 | Some s \<Rightarrow> s)
       (case padding of None \<Rightarrow> 0 | Some p \<Rightarrow> p)"
| "ref_call (MaxPool2D_obj k s p) [n, c, h, w] = window_shape n c h w k s p"
| "ref_call GlobalAvgPool2D_obj [n, c, h, w] = Inr [n, c, 1, 1]"
| "ref_call (Dense_obj units) (n # rest) = Inr [n, units]"
| "ref_call (Conv2D_obj channels k strides padding act) x = Inl Shape_error"
| "ref_call (MaxPool2D_obj k s p) x = Inl Shape_error"
| "ref_call GlobalAvgPool2D_obj x = Inl Shape_error"
| "ref_call (Dense_obj units) x = Inl Shape_error"
| "ref_call other x = Inl Not_a_layer"

text \<open>
  \<^verbatim>\<open>nd.concat\<close> along axis \<open>d\<close>: the arrays agree on every other axis and the result adds up
  the extents along \<open>d\<close>.
\<close>

definition ref_concat :: "nat list list \<Rightarrow> nat \<Rightarrow> lib_error + nat list" where
  "ref_concat xs d =
     (case xs of
        [] \<Rightarrow> Inl Shape_error
      | x # rest \<Rightarrow>
          if d < length x \<and> list_all (\<lambda>y. length y = length x \<and> y[d := 0] = x[d := 0]) rest
          then Inr (x[d := sum_list (map (\<lambda>y. y ! d) xs)])
          else Inl Shape_error)"

text \<open>The name of an object, without the running number the library appends to it.\<close>

fun ref_name :: "obj \<Rightarrow> string" where
  "ref_name (Conv2D_obj channels k strides padding act) = ''conv''"
| "ref_name (MaxPool2D_obj k s p) = ''pool''"
| "ref_name GlobalAvgPool2D_obj = ''pool''"
| "ref_name (Dense_obj units) = ''dense''"
| "ref_name Sequential_obj = ''sequential''"
| "ref_name Block_obj = ''inception''"
| "ref_name other = []"

definition ref_library :: "(obj, nat list, train_run list, lib_error) library" where
  "ref_library =
     \<lparr>nn_Block_init = returnp Block_obj,
      nn_Conv2D = (\<lambda>channels k strides padding act.
        returnp (Conv2D_obj channels k strides padding act)),
      nn_MaxPool2D = (\<lambda>k s p. returnp (MaxPool2D_obj k s p)),
      nn_GlobalAvgPool2D = returnp GlobalAvgPool2D_obj,
      nn_Dense = (\<lambda>units. returnp (Dense_obj units)),
      nn_Sequential = returnp Sequential_obj,
      Block_call = (\<lambda>l x s. (ref_call l x, s)),
      nd_concat = (\<lambda>xs d s. (ref_concat xs d, s)),
      nd_random_uniform = returnp,
      Block_initialize = (\<lambda>net force_reinit ctx init. returnp ()),
      Block_collect_params = (\<lambda>net. returnp Params_obj),
      Block_name = ref_name,
      NDArray_shape = (\<lambda>x. x),
      d2l_try_gpu = returnp Context_obj,
      init_Xavier = returnp Xavier_obj,
      gluon_Trainer = (\<lambda>params optimizer optimizer_params.
        returnp (Trainer_obj params optimizer optimizer_params)),
      d2l_load_data_fashion_mnist = (\<lambda>batch_size resize.
        returnp (DataLoader_obj True batch_size resize, DataLoader_obj False batch_size resize)),
      d2l_train_ch5 = (\<lambda>net train_iter test_iter batch_size trainer ctx num_epochs s.
        (Inr (), s @ [\<lparr>run_net = net, run_train_iter = train_iter, run_test_iter = test_iter,
                       run_batch_size = batch_size, run_trainer = trainer, run_ctx = ctx,
                       run_num_epochs = num_epochs\<rparr>]))\<rparr>"

subsection \<open>An interpretation with deferred initialisation\<close>

text \<open>
  The notebook constructs every convolution and the dense layer without the number of
  input channels. The library then allocates the weights of such a layer at the first call
  after \<^verbatim>\<open>initialize()\<close>, from the input of that call, and keeps them from then on. This
  interpretation adds that to the shape rules. An object is the constructor call that made
  it together with a number that tells instances apart. The state counts the objects
  constructed so far and records, for every layer with weights that has been initialised,
  whether the weights are still deferred (\<open>None\<close>) or allocated for a number of inputs per
  position (\<open>Some c\<close>). Only construction, initialisation and calls are interpreted; the
  entry points of the training cell return without effect.
\<close>

type_synonym dobj = "nat \<times> obj"

record dstate =
  d_created :: nat
  d_params :: "(nat \<times> nat option) list"

text \<open>The layers inside a block, in the order a forward pass meets them.\<close>

fun block_layers :: "'l block \<Rightarrow> 'l list" where
  "block_layers (Layer l) = [l]"
| "block_layers (Incep self) =
     [p1_1 self, p2_1 self, p2_2 self, p3_1 self, p3_2 self, p4_1 self, p4_2 self]"
| "block_layers (Sequential (h, bs)) = concat (map block_layers bs)"

fun has_params :: "obj \<Rightarrow> bool" where
  "has_params (Conv2D_obj channels k strides padding act) = True"
| "has_params (Dense_obj units) = True"
| "has_params other = False"

text \<open>
  What the weights of a layer are allocated for: the channels of the batch for a
  convolution, the flattened size of one sample for a dense layer.
\<close>

fun in_size :: "obj \<Rightarrow> nat list \<Rightarrow> nat" where
  "in_size (Conv2D_obj channels k strides padding act) [n, c, h, w] = c"
| "in_size (Dense_obj units) (n # rest) = prod_list rest"
| "in_size other x = 0"

fun set_param :: "nat \<Rightarrow> nat option \<Rightarrow> (nat \<times> nat option) list \<Rightarrow> (nat \<times> nat option) list" where
  "set_param i v [] = [(i, v)]"
| "set_param i v ((j, u) # ps) = (if i = j then (j, v) # ps else (j, u) # set_param i v ps)"

definition d_new :: "obj \<Rightarrow> (dobj, dstate, lib_error) prog" where
  "d_new made = (\<lambda>s. (Inr (d_created s, made), s\<lparr>d_created := d_created s + 1\<rparr>))"

text \<open>
  \<^verbatim>\<open>initialize\<close>: every layer with weights inside the block that has none yet gets deferred
  weights; weights already there keep what they were allocated for.
\<close>

definition d_initialize :: "dobj block \<Rightarrow> (unit, dstate, lib_error) prog" where
  "d_initialize net = (\<lambda>s.
     (Inr (), s\<lparr>d_params :=
        fold (\<lambda>l ps. if has_params (snd l) \<and> map_of ps (fst l) = None
                      then ps @ [(fst l, None)] else ps)
          (block_layers net) (d_params s)\<rparr>))"

text \<open>
  A call. A layer without weights follows the shape rules. A layer with weights raises
  when it was never initialised; with deferred weights it follows the shape rules and, when
  they accept, allocates the weights for this input; with allocated weights it raises on an
  input they were not allocated for and follows the shape rules otherwise.
\<close>

definition d_call :: "dobj \<Rightarrow> nat list \<Rightarrow> (nat list, dstate, lib_error) prog" where
  "d_call l x = (\<lambda>s.
     if \<not> has_params (snd l) then (ref_call (snd l) x, s)
     else
       (case map_of (d_params s) (fst l) of
          None \<Rightarrow> (Inl Not_initialized, s)
        | Some None \<Rightarrow>
            (case ref_call (snd l) x of
               Inl e \<Rightarrow> (Inl e, s)
             | Inr y \<Rightarrow>
                 (Inr y, s\<lparr>d_params := set_param (fst l) (Some (in_size (snd l) x)) (d_params s)\<rparr>))
        | Some (Some c) \<Rightarrow>
            if c = in_size (snd l) x then (ref_call (snd l) x, s) else (Inl Shape_error, s)))"

definition deferred_library :: "(dobj, nat list, dstate, lib_error) library" where
  "deferred_library =
     \<lparr>nn_Block_init = d_new Block_obj,
      nn_Conv2D = (\<lambda>channels k strides padding act.
        d_new (Conv2D_obj channels k strides padding act)),
      nn_MaxPool2D = (\<lambda>k s p. d_new (MaxPool2D_obj k s p)),
      nn_GlobalAvgPool2D = d_new GlobalAvgPool2D_obj,
      nn_Dense = (\<lambda>units. d_new (Dense_obj units)),
      nn_Sequential = d_new Sequential_obj,
      Block_call = d_call,
      nd_concat = (\<lambda>xs d s. (ref_concat xs d, s)),
      nd_random_uniform = returnp,
      Block_initialize = (\<lambda>net force_reinit ctx init. d_initialize net),
      Block_collect_params = (\<lambda>net. d_new Params_obj),
      Block_name = (\<lambda>l. ref_name (snd l)),
      NDArray_shape = (\<lambda>x. x),
      d2l_try_gpu = d_new Context_obj,
      init_Xavier = d_new Xavier_obj,
      gluon_Trainer = (\<lambda>params optimizer optimizer_params.
        d_new (Trainer_obj (snd params) optimizer optimizer_params)),
      d2l_load_data_fashion_mnist = (\<lambda>batch_size resize.
        bindp (d_new (DataLoader_obj True batch_size resize)) (\<lambda>train_iter.
        bindp (d_new (DataLoader_obj False batch_size resize)) (\<lambda>test_iter.
        returnp (train_iter, test_iter)))),
      d2l_train_ch5 = (\<lambda>net train_iter test_iter batch_size trainer ctx num_epochs.
        returnp ())\<rparr>"

text \<open>
  The block of the examples: \<^verbatim>\<open>Inception(64, (96, 128), (16, 32), 32)\<close> constructed first in
  a fresh session; the state after it was constructed; the state after \<^verbatim>\<open>initialize()\<close>;
  the state after a first call on a batch of shape (1, 192, 12, 12).
\<close>

definition example_block :: "dobj Inception" where
  "example_block =
     \<lparr>block_base = (0, Block_obj),
      p1_1 = (1, Conv2D_obj 64 1 None None (Some ''relu'')),
      p2_1 = (2, Conv2D_obj 96 1 None None (Some ''relu'')),
      p2_2 = (3, Conv2D_obj 128 3 None (Some 1) (Some ''relu'')),
      p3_1 = (4, Conv2D_obj 16 1 None None (Some ''relu'')),
      p3_2 = (5, Conv2D_obj 32 5 None (Some 2) (Some ''relu'')),
      p4_1 = (6, MaxPool2D_obj 3 1 1),
      p4_2 = (7, Conv2D_obj 32 1 None None (Some ''relu''))\<rparr>"

definition state_constructed :: dstate where
  "state_constructed = \<lparr>d_created = 8, d_params = []\<rparr>"


definition state_allocated :: dstate where
  "state_allocated =
     \<lparr>d_created = 8,
      d_params = [(1, Some 192), (2, Some 192), (3, Some 96), (4, Some 192), (5, Some 16),
                  (7, Some 192)]\<rparr>"

subsection \<open>Notions used in the statements\<close>

text \<open>The \<^verbatim>\<open>Inception\<close> instances inside a block, in the order a forward pass meets them.\<close>

fun inceptions :: "'l block \<Rightarrow> 'l Inception list" where
  "inceptions (Layer l) = []"
| "inceptions (Incep self) = [self]"
| "inceptions (Sequential (h, bs)) = concat (map inceptions bs)"

text \<open>
  The weights of a block are fixed in state \<open>s\<close>: no call of one of its layers, on any
  input, and no \<^verbatim>\<open>nd.concat\<close> along axis 1 changes \<open>s\<close>.
\<close>

definition weights_fixed :: "('l, 't, 'w, 'e) library \<Rightarrow> 'l Inception \<Rightarrow> 'w \<Rightarrow> bool" where
  "weights_fixed fw self s \<longleftrightarrow>
     (\<forall>l \<in> set (block_layers (Incep self)). \<forall>x. snd (Block_call fw l x s) = s) \<and>
     (\<forall>xs. snd (nd_concat fw xs 1 s) = s)"






section \<open>Properties\<close>

subsection \<open>Sequencing\<close>

lemma bindp_returnp [simp]: "bindp (returnp a) f = f a"
  by (simp add: bindp_def returnp_def)

lemma bindp_assoc: "bindp (bindp m f) g = bindp m (\<lambda>a. bindp (f a) g)"
  by (auto simp: bindp_def fun_eq_iff split: prod.splits sum.splits)

lemma bindp_Inr_iff:
  "bindp m f s = (Inr b, s') \<longleftrightarrow> (\<exists>a s1. m s = (Inr a, s1) \<and> f a s1 = (Inr b, s'))"
  by (auto simp: bindp_def split: prod.splits sum.splits)


lemma returnp_eq_iff: "returnp a s = (r, s') \<longleftrightarrow> r = Inr a \<and> s' = s"
  by (auto simp: returnp_def)

subsection \<open>The shape interpretation\<close>

lemma ref_fields [simp]:
  "nn_Block_init ref_library = returnp Block_obj"
  "nn_Conv2D ref_library channels k strides padding act = returnp (Conv2D_obj channels k strides padding act)"
  "nn_MaxPool2D ref_library k s p = returnp (MaxPool2D_obj k s p)"
  "nn_GlobalAvgPool2D ref_library = returnp GlobalAvgPool2D_obj"
  "nn_Dense ref_library units = returnp (Dense_obj units)"
  "nn_Sequential ref_library = returnp Sequential_obj"
  "Block_call ref_library l x st = (ref_call l x, st)"
  "nd_concat ref_library xs d st = (ref_concat xs d, st)"
  "nd_random_uniform ref_library = returnp"
  "Block_initialize ref_library net fr ctx ini = returnp ()"
  "Block_name ref_library = ref_name"
  "NDArray_shape ref_library x = x"
  by (simp_all add: ref_library_def)

lemma ref_call_Conv2D:
  "ref_call (Conv2D_obj channels k strides padding act) x =
     (case x of
        [n, c, h, w] \<Rightarrow>
          window_shape n channels h w k (case strides of None \<Rightarrow> 1 | Some s \<Rightarrow> s)
            (case padding of None \<Rightarrow> 0 | Some p \<Rightarrow> p)
      | _ \<Rightarrow> Inl Shape_error)"
  by (simp split: list.splits)

lemma ref_call_MaxPool2D:
  "ref_call (MaxPool2D_obj k s p) x =
     (case x of [n, c, h, w] \<Rightarrow> window_shape n c h w k s p | _ \<Rightarrow> Inl Shape_error)"
  by (simp split: list.splits)

lemma window_same:
  assumes "s = 1" and "k = 2 * p + 1"
  shows "window_shape n c h w k s p =
     (if 0 < h \<and> 0 < w then Inr [n, c, h, w] else Inl Shape_error)"
  using assms by (auto simp: window_shape_def out_size_def split: option.splits)

lemma conv_same:
  assumes "(case strides of None \<Rightarrow> 1 | Some s \<Rightarrow> s) = 1"
    and "k = 2 * (case padding of None \<Rightarrow> 0 | Some p \<Rightarrow> p) + 1"
  shows "ref_call (Conv2D_obj channels k strides padding act) [n, c, h, w] =
     (if 0 < h \<and> 0 < w then Inr [n, channels, h, w] else Inl Shape_error)"
  using window_same [OF assms] by simp

lemma pool_same:
  assumes "s = 1" and "k = 2 * p + 1"
  shows "ref_call (MaxPool2D_obj k s p) [n, c, h, w] =
     (if 0 < h \<and> 0 < w then Inr [n, c, h, w] else Inl Shape_error)"
  using window_same [OF assms] by simp

lemma conv_not_4d:
  "length x \<noteq> 4 \<Longrightarrow> ref_call (Conv2D_obj channels k strides padding act) x = Inl Shape_error"
  by (auto simp: ref_call_Conv2D split: list.splits)

lemma ref_concat4:
  "d = 1 \<Longrightarrow>
   ref_concat [[n, c1, h, w], [n, c2, h, w], [n, c3, h, w], [n, c4, h, w]] d =
     Inr [n, c1 + c2 + c3 + c4, h, w]"
  by (simp add: ref_concat_def)

lemma Inception_init_ref_returnp:
  "Inception_init ref_library c1 c2 c3 c4 =
     returnp
       \<lparr>block_base = Block_obj,
        p1_1 = Conv2D_obj c1 1 None None (Some ''relu''),
        p2_1 = Conv2D_obj (fst c2) 1 None None (Some ''relu''),
        p2_2 = Conv2D_obj (snd c2) 3 None (Some 1) (Some ''relu''),
        p3_1 = Conv2D_obj (fst c3) 1 None None (Some ''relu''),
        p3_2 = Conv2D_obj (snd c3) 5 None (Some 2) (Some ''relu''),
        p4_1 = MaxPool2D_obj 3 1 1,
        p4_2 = Conv2D_obj c4 1 None None (Some ''relu'')\<rparr>"
  by (simp add: Inception_init_def)

lemma bindp_Pair: "bindp (Pair r) f s = (case r of Inl e \<Rightarrow> (Inl e, s) | Inr a \<Rightarrow> f a s)"
  by (auto simp: bindp_def split: sum.splits)

lemma ref_Block_call: "Block_call ref_library l x = Pair (ref_call l x)"
  by (simp add: fun_eq_iff)

lemma ref_nd_concat: "nd_concat ref_library xs d = Pair (ref_concat xs d)"
  by (simp add: fun_eq_iff)

lemma Inception_forward_ref_ok:
  assumes "Inception_init ref_library c1 c2 c3 c4 s0 = (Inr self, s1)" and "0 < h" and "0 < w"
  shows "Inception_forward ref_library self [n, c, h, w] s =
     (Inr [n, c1 + snd c2 + snd c3 + c4, h, w], s)"
  using assms
  by (simp add: Inception_init_ref_returnp returnp_eq_iff Inception_forward_def
      ref_Block_call ref_nd_concat bindp_Pair conv_same pool_same ref_concat4 del: ref_call.simps)

lemma Inception_forward_ref_Inr:
  assumes "Inception_init ref_library c1 c2 c3 c4 s0 = (Inr self, s1)"
    and "Inception_forward ref_library self x s = (Inr y, s')"
  shows "\<exists>n c h w. x = [n, c, h, w] \<and> 0 < h \<and> 0 < w"
proof (cases "length x = 4")
  case True
  then obtain n c h w where x: "x = [n, c, h, w]"
    by (auto simp: length_Suc_conv numeral_eq_Suc)
  have "0 < h \<and> 0 < w"
  proof (rule ccontr)
    assume "\<not> (0 < h \<and> 0 < w)"
    then have "Inception_forward ref_library self x s = (Inl Shape_error, s)"
      using assms(1) unfolding x
      by (auto simp: Inception_init_ref_returnp returnp_eq_iff Inception_forward_def
          ref_Block_call bindp_Pair conv_same simp del: ref_call.simps)
    with assms(2) show False by simp
  qed
  with x show ?thesis by blast
next
  case False
  then have "Inception_forward ref_library self x s = (Inl Shape_error, s)"
    using assms(1)
    by (simp add: Inception_init_ref_returnp returnp_eq_iff Inception_forward_def
        ref_Block_call bindp_Pair conv_not_4d del: ref_call.simps)
  with assms(2) show ?thesis by simp
qed

subsection \<open>The Inception block\<close>

lemma Inception_forward_paths:
  "Inception_forward fw self x =
     bindp (path1 fw self x) (\<lambda>p1.
     bindp (path2 fw self x) (\<lambda>p2.
     bindp (path3 fw self x) (\<lambda>p3.
     bindp (path4 fw self x) (\<lambda>p4.
     nd_concat fw [p1, p2, p3, p4] 1))))"
  by (simp add: Inception_forward_def path1_def path2_def path3_def path4_def bindp_assoc)

lemma Inception_init_iff:
  "Inception_init fw c1 c2 c3 c4 s = (Inr self, s') \<longleftrightarrow>
     (\<exists>s1 s2 s3 s4 s5 s6 s7.
        nn_Block_init fw s = (Inr (block_base self), s1) \<and>
        nn_Conv2D fw c1 1 None None (Some ''relu'') s1 = (Inr (p1_1 self), s2) \<and>
        nn_Conv2D fw (fst c2) 1 None None (Some ''relu'') s2 = (Inr (p2_1 self), s3) \<and>
        nn_Conv2D fw (snd c2) 3 None (Some 1) (Some ''relu'') s3 = (Inr (p2_2 self), s4) \<and>
        nn_Conv2D fw (fst c3) 1 None None (Some ''relu'') s4 = (Inr (p3_1 self), s5) \<and>
        nn_Conv2D fw (snd c3) 5 None (Some 2) (Some ''relu'') s5 = (Inr (p3_2 self), s6) \<and>
        nn_MaxPool2D fw 3 1 1 s6 = (Inr (p4_1 self), s7) \<and>
        nn_Conv2D fw c4 1 None None (Some ''relu'') s7 = (Inr (p4_2 self), s'))"
  by (cases self) (auto simp: Inception_init_def bindp_Inr_iff returnp_eq_iff)

text \<open>
  Claim C1. For every library, \<^verbatim>\<open>Inception.forward\<close> is exactly this: the four paths, each
  applied to the same input \<open>x\<close>, followed by \<^verbatim>\<open>nd.concat\<close> of the four results, in the order
  \<open>p1, p2, p3, p4\<close>, along axis 1. Path 1 is the call of \<open>p1_1\<close>; path 2 is \<open>p2_1\<close> then
  \<open>p2_2\<close>; path 3 is \<open>p3_1\<close> then \<open>p3_2\<close>; path 4 is \<open>p4_1\<close> then \<open>p4_2\<close>. An instance
  comes out of \<^verbatim>\<open>__init__\<close> exactly when \<open>p1_1\<close>, \<open>p2_1\<close>, \<open>p3_1\<close> and \<open>p4_2\<close> are the
  results of constructing convolutions with kernel size 1, \<open>p2_2\<close> of a convolution with
  kernel size 3 and padding 1, \<open>p3_2\<close> of a convolution with kernel size 5 and padding 2,
  and \<open>p4_1\<close> of a maximum pooling with window 3, stride 1 and padding 1.
\<close>

theorem C1_forward_four_paths_concat:
  "Inception_forward fw self x =
     bindp (Block_call fw (p1_1 self) x) (\<lambda>p1.
     bindp (bindp (Block_call fw (p2_1 self) x) (Block_call fw (p2_2 self))) (\<lambda>p2.
     bindp (bindp (Block_call fw (p3_1 self) x) (Block_call fw (p3_2 self))) (\<lambda>p3.
     bindp (bindp (Block_call fw (p4_1 self) x) (Block_call fw (p4_2 self))) (\<lambda>p4.
     nd_concat fw [p1, p2, p3, p4] 1))))
   \<and> (Inception_init fw c1 c2 c3 c4 s = (Inr self, s') \<longleftrightarrow>
     (\<exists>s1 s2 s3 s4 s5 s6 s7.
        nn_Block_init fw s = (Inr (block_base self), s1) \<and>
        nn_Conv2D fw c1 1 None None (Some ''relu'') s1 = (Inr (p1_1 self), s2) \<and>
        nn_Conv2D fw (fst c2) 1 None None (Some ''relu'') s2 = (Inr (p2_1 self), s3) \<and>
        nn_Conv2D fw (snd c2) 3 None (Some 1) (Some ''relu'') s3 = (Inr (p2_2 self), s4) \<and>
        nn_Conv2D fw (fst c3) 1 None None (Some ''relu'') s4 = (Inr (p3_1 self), s5) \<and>
        nn_Conv2D fw (snd c3) 5 None (Some 2) (Some ''relu'') s5 = (Inr (p3_2 self), s6) \<and>
        nn_MaxPool2D fw 3 1 1 s6 = (Inr (p4_1 self), s7) \<and>
        nn_Conv2D fw c4 1 None None (Some ''relu'') s7 = (Inr (p4_2 self), s')))"
  using Inception_forward_paths [of fw self x] Inception_init_iff [of fw c1 c2 c3 c4 s self s']
  unfolding path1_def path2_def path3_def path4_def by (rule conjI)

subsection \<open>Assembling the network\<close>

lemma build_b1_iff:
  "build_b1 fw s = (Inr b, s') \<longleftrightarrow>
     (\<exists>h l1 l2 s1 s2.
        nn_Sequential fw s = (Inr h, s1) \<and>
        nn_Conv2D fw 64 7 (Some 2) (Some 3) (Some ''relu'') s1 = (Inr l1, s2) \<and>
        nn_MaxPool2D fw 3 2 1 s2 = (Inr l2, s') \<and>
        b = (h, [Layer l1, Layer l2]))"
  by (auto simp: build_b1_def bindp_Inr_iff returnp_eq_iff)

lemma build_b2_iff:
  "build_b2 fw s = (Inr b, s') \<longleftrightarrow>
     (\<exists>h l1 l2 l3 s1 s2 s3.
        nn_Sequential fw s = (Inr h, s1) \<and>
        nn_Conv2D fw 64 1 None None (Some ''relu'') s1 = (Inr l1, s2) \<and>
        nn_Conv2D fw 192 3 None (Some 1) (Some ''relu'') s2 = (Inr l2, s3) \<and>
        nn_MaxPool2D fw 3 2 1 s3 = (Inr l3, s') \<and>
        b = (h, [Layer l1, Layer l2, Layer l3]))"
  by (auto simp: build_b2_def bindp_Inr_iff returnp_eq_iff)

lemma build_b3_iff:
  "build_b3 fw s = (Inr b, s') \<longleftrightarrow>
     (\<exists>h i1 i2 l3 s1 s2 s3.
        nn_Sequential fw s = (Inr h, s1) \<and>
        Inception_init fw 64 (96, 128) (16, 32) 32 s1 = (Inr i1, s2) \<and>
        Inception_init fw 128 (128, 192) (32, 96) 64 s2 = (Inr i2, s3) \<and>
        nn_MaxPool2D fw 3 2 1 s3 = (Inr l3, s') \<and>
        b = (h, [Incep i1, Incep i2, Layer l3]))"
  by (auto simp: build_b3_def bindp_Inr_iff returnp_eq_iff)

lemma build_b4_iff:
  "build_b4 fw s = (Inr b, s') \<longleftrightarrow>
     (\<exists>h i1 i2 i3 i4 i5 l6 s1 s2 s3 s4 s5 s6.
        nn_Sequential fw s = (Inr h, s1) \<and>
        Inception_init fw 192 (96, 208) (16, 48) 64 s1 = (Inr i1, s2) \<and>
        Inception_init fw 160 (112, 224) (24, 64) 64 s2 = (Inr i2, s3) \<and>
        Inception_init fw 128 (128, 256) (24, 64) 64 s3 = (Inr i3, s4) \<and>
        Inception_init fw 112 (144, 288) (32, 64) 64 s4 = (Inr i4, s5) \<and>
        Inception_init fw 256 (160, 320) (32, 128) 128 s5 = (Inr i5, s6) \<and>
        nn_MaxPool2D fw 3 2 1 s6 = (Inr l6, s') \<and>
        b = (h, [Incep i1, Incep i2, Incep i3, Incep i4, Incep i5, Layer l6]))"
  by (auto simp: build_b4_def bindp_Inr_iff returnp_eq_iff)

lemma build_b5_iff:
  "build_b5 fw s = (Inr b, s') \<longleftrightarrow>
     (\<exists>h i1 i2 l3 s1 s2 s3.
        nn_Sequential fw s = (Inr h, s1) \<and>
        Inception_init fw 256 (160, 320) (32, 128) 128 s1 = (Inr i1, s2) \<and>
        Inception_init fw 384 (192, 384) (48, 128) 128 s2 = (Inr i2, s3) \<and>
        nn_GlobalAvgPool2D fw s3 = (Inr l3, s') \<and>
        b = (h, [Incep i1, Incep i2, Layer l3]))"
  by (auto simp: build_b5_def bindp_Inr_iff returnp_eq_iff)

lemma build_net_iff:
  "build_net fw b1 b2 b3 b4 b5 s = (Inr net, s') \<longleftrightarrow>
     (\<exists>h d s1.
        nn_Sequential fw s = (Inr h, s1) \<and>
        nn_Dense fw 10 s1 = (Inr d, s') \<and>
        net = (h, [Sequential b1, Sequential b2, Sequential b3, Sequential b4, Sequential b5,
                   Layer d]))"
  by (auto simp: build_net_def bindp_Inr_iff returnp_eq_iff)

lemma assemble_iff:
  "assemble fw s = (Inr net, s') \<longleftrightarrow>
     (\<exists>b1 b2 b3 b4 b5 s1 s2 s3 s4 s5.
        build_b1 fw s = (Inr b1, s1) \<and>
        build_b2 fw s1 = (Inr b2, s2) \<and>
        build_b3 fw s2 = (Inr b3, s3) \<and>
        build_b4 fw s3 = (Inr b4, s4) \<and>
        build_b5 fw s4 = (Inr b5, s5) \<and>
        build_net fw b1 b2 b3 b4 b5 s5 = (Inr net, s'))"
  by (auto simp: assemble_def bindp_Inr_iff)

lemma assemble_ref_Inr: "\<exists>net. assemble ref_library s = (Inr net, s)"
  by (simp add: assemble_iff build_b1_iff build_b2_iff build_b3_iff build_b4_iff build_b5_iff
      build_net_iff Inception_init_ref_returnp returnp_eq_iff)

lemma assemble_inceptions:
  assumes "assemble fw s = (Inr net, s')"
  shows "\<exists>b1 b2 b3 b4 b5 d i1 i2 i3 i4 i5 i6 i7 i8 i9.
     snd net = [Sequential b1, Sequential b2, Sequential b3, Sequential b4, Sequential b5, Layer d] \<and>
     inceptions (Sequential b1) = [] \<and> inceptions (Sequential b2) = [] \<and>
     inceptions (Sequential b3) = [i1, i2] \<and>
     inceptions (Sequential b4) = [i3, i4, i5, i6, i7] \<and>
     inceptions (Sequential b5) = [i8, i9] \<and>
     (\<exists>t t'. Inception_init fw 64 (96, 128) (16, 32) 32 t = (Inr i1, t')) \<and>
     (\<exists>t t'. Inception_init fw 128 (128, 192) (32, 96) 64 t = (Inr i2, t')) \<and>
     (\<exists>t t'. Inception_init fw 192 (96, 208) (16, 48) 64 t = (Inr i3, t')) \<and>
     (\<exists>t t'. Inception_init fw 160 (112, 224) (24, 64) 64 t = (Inr i4, t')) \<and>
     (\<exists>t t'. Inception_init fw 128 (128, 256) (24, 64) 64 t = (Inr i5, t')) \<and>
     (\<exists>t t'. Inception_init fw 112 (144, 288) (32, 64) 64 t = (Inr i6, t')) \<and>
     (\<exists>t t'. Inception_init fw 256 (160, 320) (32, 128) 128 t = (Inr i7, t')) \<and>
     (\<exists>t t'. Inception_init fw 256 (160, 320) (32, 128) 128 t = (Inr i8, t')) \<and>
     (\<exists>t t'. Inception_init fw 384 (192, 384) (48, 128) 128 t = (Inr i9, t'))"
proof -
  from assms obtain b1 b2 b3 b4 b5 s1 s2 s3 s4 s5 where
    b1: "build_b1 fw s = (Inr b1, s1)" and b2: "build_b2 fw s1 = (Inr b2, s2)" and
    b3: "build_b3 fw s2 = (Inr b3, s3)" and b4: "build_b4 fw s3 = (Inr b4, s4)" and
    b5: "build_b5 fw s4 = (Inr b5, s5)" and
    net: "build_net fw b1 b2 b3 b4 b5 s5 = (Inr net, s')"
    unfolding assemble_iff by blast
  from net obtain d where
    1: "snd net = [Sequential b1, Sequential b2, Sequential b3, Sequential b4, Sequential b5, Layer d]"
    unfolding build_net_iff by auto
  from b1 have 2: "inceptions (Sequential b1) = []" unfolding build_b1_iff by auto
  from b2 have 3: "inceptions (Sequential b2) = []" unfolding build_b2_iff by auto
  from b3 have 4: "\<exists>i1 i2. inceptions (Sequential b3) = [i1, i2] \<and>
    (\<exists>t t'. Inception_init fw 64 (96, 128) (16, 32) 32 t = (Inr i1, t')) \<and>
    (\<exists>t t'. Inception_init fw 128 (128, 192) (32, 96) 64 t = (Inr i2, t'))"
    unfolding build_b3_iff by (elim exE conjE) (simp, blast)
  from b4 have 5: "\<exists>i3 i4 i5 i6 i7. inceptions (Sequential b4) = [i3, i4, i5, i6, i7] \<and>
    (\<exists>t t'. Inception_init fw 192 (96, 208) (16, 48) 64 t = (Inr i3, t')) \<and>
    (\<exists>t t'. Inception_init fw 160 (112, 224) (24, 64) 64 t = (Inr i4, t')) \<and>
    (\<exists>t t'. Inception_init fw 128 (128, 256) (24, 64) 64 t = (Inr i5, t')) \<and>
    (\<exists>t t'. Inception_init fw 112 (144, 288) (32, 64) 64 t = (Inr i6, t')) \<and>
    (\<exists>t t'. Inception_init fw 256 (160, 320) (32, 128) 128 t = (Inr i7, t'))"
    unfolding build_b4_iff by (elim exE conjE) (simp, blast)
  from b5 have 6: "\<exists>i8 i9. inceptions (Sequential b5) = [i8, i9] \<and>
    (\<exists>t t'. Inception_init fw 256 (160, 320) (32, 128) 128 t = (Inr i8, t')) \<and>
    (\<exists>t t'. Inception_init fw 384 (192, 384) (48, 128) 128 t = (Inr i9, t'))"
    unfolding build_b5_iff by (elim exE conjE) (simp, blast)
  from 1 2 3 4 5 6 show ?thesis by blast
qed

text \<open>
  Claim C8. Whatever the library, an assembled \<^verbatim>\<open>net\<close> holds exactly nine \<^verbatim>\<open>Inception\<close>
  instances: none in \<^verbatim>\<open>b1\<close> and \<^verbatim>\<open>b2\<close>, two in \<^verbatim>\<open>b3\<close>, five in \<^verbatim>\<open>b4\<close>, two in \<^verbatim>\<open>b5\<close>,
  none in the dense layer.
\<close>

theorem C8_nine_inception_instances:
  assumes "assemble fw s = (Inr net, s')"
  shows "length (inceptions (Sequential net)) = 9 \<and>
         map (\<lambda>b. length (inceptions b)) (snd net) = [0, 0, 2, 5, 2, 0]"
proof -
  from assemble_inceptions [OF assms] obtain b1 b2 b3 b4 b5 d i1 i2 i3 i4 i5 i6 i7 i8 i9 where
    "snd net = [Sequential b1, Sequential b2, Sequential b3, Sequential b4, Sequential b5, Layer d]"
    "inceptions (Sequential b1) = []" "inceptions (Sequential b2) = []"
    "inceptions (Sequential b3) = [i1, i2]"
    "inceptions (Sequential b4) = [i3, i4, i5, i6, i7]"
    "inceptions (Sequential b5) = [i8, i9]"
    by blast
  then show ?thesis by (cases net) simp
qed

theorem C8_nine_inception_instances_witness:
  "\<exists>net. assemble ref_library [] = (Inr net, []) \<and>
     length (inceptions (Sequential net)) = 9 \<and>
     map (\<lambda>b. length (inceptions b)) (snd net) = [0, 0, 2, 5, 2, 0]"
proof -
  obtain net where net: "assemble ref_library [] = (Inr net, [])"
    using assemble_ref_Inr [of "[]"] by blast
  show ?thesis using C8_nine_inception_instances [OF net] net
    by (intro exI [of _ net]) simp
qed

subsection \<open>Shapes and channel counts\<close>

text \<open>
  Claim C4. In the shape interpretation, whenever an \<^verbatim>\<open>Inception\<close> block accepts an input,
  the input is a batch \<open>[n, c, h, w]\<close> and every layer of every path returns the height \<open>h\<close>
  and the width \<open>w\<close> it was given: the four path outputs are \<open>[n, c1, h, w]\<close>,
  \<open>[n, c2[1], h, w]\<close>, \<open>[n, c3[1], h, w]\<close> and \<open>[n, c4, h, w]\<close>, they differ in the channel
  axis only, and \<^verbatim>\<open>nd.concat\<close> along axis 1 accepts them and returns the block's output.
\<close>

theorem C4_paths_keep_height_and_width:
  assumes "Inception_init ref_library c1 c2 c3 c4 s0 = (Inr self, s1)"
    and "Inception_forward ref_library self x s = (Inr y, s')"
  shows "\<exists>n c h w. x = [n, c, h, w] \<and>
     path1 ref_library self x s = (Inr [n, c1, h, w], s) \<and>
     Block_call ref_library (p2_1 self) x s = (Inr [n, fst c2, h, w], s) \<and>
     Block_call ref_library (p2_2 self) [n, fst c2, h, w] s = (Inr [n, snd c2, h, w], s) \<and>
     path2 ref_library self x s = (Inr [n, snd c2, h, w], s) \<and>
     Block_call ref_library (p3_1 self) x s = (Inr [n, fst c3, h, w], s) \<and>
     Block_call ref_library (p3_2 self) [n, fst c3, h, w] s = (Inr [n, snd c3, h, w], s) \<and>
     path3 ref_library self x s = (Inr [n, snd c3, h, w], s) \<and>
     Block_call ref_library (p4_1 self) x s = (Inr [n, c, h, w], s) \<and>
     Block_call ref_library (p4_2 self) [n, c, h, w] s = (Inr [n, c4, h, w], s) \<and>
     path4 ref_library self x s = (Inr [n, c4, h, w], s) \<and>
     nd_concat ref_library [[n, c1, h, w], [n, snd c2, h, w], [n, snd c3, h, w], [n, c4, h, w]] 1 s
       = (Inr y, s') \<and>
     y = [n, c1 + snd c2 + snd c3 + c4, h, w]"
proof -
  from Inception_forward_ref_Inr [OF assms] obtain n c h w where
    x: "x = [n, c, h, w]" and h: "0 < h" and w: "0 < w" by blast
  from Inception_forward_ref_ok [OF assms(1) h w, of n c s] assms(2)
  have y: "y = [n, c1 + snd c2 + snd c3 + c4, h, w]" and s': "s' = s"
    unfolding x by simp_all
  have self: "self =
       \<lparr>block_base = Block_obj,
        p1_1 = Conv2D_obj c1 1 None None (Some ''relu''),
        p2_1 = Conv2D_obj (fst c2) 1 None None (Some ''relu''),
        p2_2 = Conv2D_obj (snd c2) 3 None (Some 1) (Some ''relu''),
        p3_1 = Conv2D_obj (fst c3) 1 None None (Some ''relu''),
        p3_2 = Conv2D_obj (snd c3) 5 None (Some 2) (Some ''relu''),
        p4_1 = MaxPool2D_obj 3 1 1,
        p4_2 = Conv2D_obj c4 1 None None (Some ''relu'')\<rparr>"
    using assms(1) by (simp add: Inception_init_ref_returnp returnp_eq_iff)
  have l11: "Block_call ref_library (p1_1 self) x s = (Inr [n, c1, h, w], s)"
    and l21: "Block_call ref_library (p2_1 self) x s = (Inr [n, fst c2, h, w], s)"
    and l22: "Block_call ref_library (p2_2 self) [n, fst c2, h, w] s = (Inr [n, snd c2, h, w], s)"
    and l31: "Block_call ref_library (p3_1 self) x s = (Inr [n, fst c3, h, w], s)"
    and l32: "Block_call ref_library (p3_2 self) [n, fst c3, h, w] s = (Inr [n, snd c3, h, w], s)"
    and l41: "Block_call ref_library (p4_1 self) x s = (Inr [n, c, h, w], s)"
    and l42: "Block_call ref_library (p4_2 self) [n, c, h, w] s = (Inr [n, c4, h, w], s)"
    using h w unfolding self x
    by (simp_all add: ref_Block_call conv_same pool_same del: ref_call.simps)
  have p1: "path1 ref_library self x s = (Inr [n, c1, h, w], s)"
    using l11 by (simp add: path1_def)
  have p2: "path2 ref_library self x s = (Inr [n, snd c2, h, w], s)"
    unfolding path2_def bindp_Inr_iff using l21 l22 by blast
  have p3: "path3 ref_library self x s = (Inr [n, snd c3, h, w], s)"
    unfolding path3_def bindp_Inr_iff using l31 l32 by blast
  have p4: "path4 ref_library self x s = (Inr [n, c4, h, w], s)"
    unfolding path4_def bindp_Inr_iff using l41 l42 by blast
  have cat: "nd_concat ref_library
      [[n, c1, h, w], [n, snd c2, h, w], [n, snd c3, h, w], [n, c4, h, w]] 1 s = (Inr y, s')"
    unfolding y s' by (simp add: ref_concat4)
  from x p1 l21 l22 p2 l31 l32 p3 l41 l42 p4 cat y show ?thesis by blast
qed

theorem C4_paths_keep_height_and_width_witness:
  "\<exists>self. Inception_init ref_library 64 (96, 128) (16, 32) 32 [] = (Inr self, []) \<and>
     Inception_forward ref_library self [1, 192, 12, 12] [] = (Inr [1, 256, 12, 12], []) \<and>
     path1 ref_library self [1, 192, 12, 12] [] = (Inr [1, 64, 12, 12], []) \<and>
     path2 ref_library self [1, 192, 12, 12] [] = (Inr [1, 128, 12, 12], []) \<and>
     path3 ref_library self [1, 192, 12, 12] [] = (Inr [1, 32, 12, 12], []) \<and>
     path4 ref_library self [1, 192, 12, 12] [] = (Inr [1, 32, 12, 12], [])"
proof -
  obtain self where i: "Inception_init ref_library 64 (96, 128) (16, 32) 32 [] = (Inr self, [])"
    by (simp add: Inception_init_ref_returnp returnp_eq_iff)
  have f: "Inception_forward ref_library self [1, 192, 12, 12] [] = (Inr [1, 256, 12, 12], [])"
    using Inception_forward_ref_ok [OF i, of 12 12 1 192 "[]"] by simp
  from C4_paths_keep_height_and_width [OF i f] i f show ?thesis by auto
qed

text \<open>
  Claim C2. In the shape interpretation, the output of an \<^verbatim>\<open>Inception\<close> block built with
  \<open>c1, c2, c3, c4\<close> has \<open>c1 + c2[1] + c3[1] + c4\<close> channels, for every batch of positive height
  and width. For the nine instances of the assembled network, in the order \<^verbatim>\<open>b3\<close>, \<^verbatim>\<open>b4\<close>,
  \<^verbatim>\<open>b5\<close>, the channel counts are the nine sums of the claim, and the sums are 256, 480, 512,
  512, 512, 528, 832, 832 and 1024.
\<close>

theorem C2_output_channels_are_sums:
  "(Inception_init ref_library c1 c2 c3 c4 s0 = (Inr self, s1) \<longrightarrow>
      Inception_forward ref_library self [n, c, Suc h, Suc w] s =
        (Inr [n, c1 + snd c2 + snd c3 + c4, Suc h, Suc w], s))
   \<and> (assemble ref_library t0 = (Inr net, t1) \<longrightarrow>
      map (\<lambda>self. fst (Inception_forward ref_library self [n, c, Suc h, Suc w] s))
        (inceptions (Sequential net)) =
      map (\<lambda>k. Inr [n, k, Suc h, Suc w])
        [64 + 128 + 32 + 32, 128 + 192 + 96 + 64, 192 + 208 + 48 + 64, 160 + 224 + 64 + 64,
         128 + 256 + 64 + 64, 112 + 288 + 64 + 64, 256 + 320 + 128 + 128,
         256 + 320 + 128 + 128, 384 + 384 + 128 + 128])
   \<and> [64 + 128 + 32 + 32, 128 + 192 + 96 + 64, 192 + 208 + 48 + 64, 160 + 224 + 64 + 64,
         128 + 256 + 64 + 64, 112 + 288 + 64 + 64, 256 + 320 + 128 + 128,
         256 + 320 + 128 + 128, 384 + 384 + 128 + 128]
       = [256, 480, 512, 512, 512, 528, 832, 832, 1024 :: nat]"
proof (intro conjI impI)
  assume "Inception_init ref_library c1 c2 c3 c4 s0 = (Inr self, s1)"
  then show "Inception_forward ref_library self [n, c, Suc h, Suc w] s =
        (Inr [n, c1 + snd c2 + snd c3 + c4, Suc h, Suc w], s)"
    by (rule Inception_forward_ref_ok) simp_all
next
  assume "assemble ref_library t0 = (Inr net, t1)"
  from assemble_inceptions [OF this] obtain b1 b2 b3 b4 b5 d i1 i2 i3 i4 i5 i6 i7 i8 i9 where
    net: "snd net = [Sequential b1, Sequential b2, Sequential b3, Sequential b4, Sequential b5, Layer d]"
    "inceptions (Sequential b1) = []" "inceptions (Sequential b2) = []"
    "inceptions (Sequential b3) = [i1, i2]"
    "inceptions (Sequential b4) = [i3, i4, i5, i6, i7]"
    "inceptions (Sequential b5) = [i8, i9]" and
    i: "\<exists>t t'. Inception_init ref_library 64 (96, 128) (16, 32) 32 t = (Inr i1, t')"
     "\<exists>t t'. Inception_init ref_library 128 (128, 192) (32, 96) 64 t = (Inr i2, t')"
     "\<exists>t t'. Inception_init ref_library 192 (96, 208) (16, 48) 64 t = (Inr i3, t')"
     "\<exists>t t'. Inception_init ref_library 160 (112, 224) (24, 64) 64 t = (Inr i4, t')"
     "\<exists>t t'. Inception_init ref_library 128 (128, 256) (24, 64) 64 t = (Inr i5, t')"
     "\<exists>t t'. Inception_init ref_library 112 (144, 288) (32, 64) 64 t = (Inr i6, t')"
     "\<exists>t t'. Inception_init ref_library 256 (160, 320) (32, 128) 128 t = (Inr i7, t')"
     "\<exists>t t'. Inception_init ref_library 256 (160, 320) (32, 128) 128 t = (Inr i8, t')"
     "\<exists>t t'. Inception_init ref_library 384 (192, 384) (48, 128) 128 t = (Inr i9, t')"
    by blast
  have all: "inceptions (Sequential net) = [i1, i2, i3, i4, i5, i6, i7, i8, i9]"
    using net by (cases net) simp
  have ok: "\<And>c1 c2 c3 c4 self. \<exists>t t'. Inception_init ref_library c1 c2 c3 c4 t = (Inr self, t') \<Longrightarrow>
      fst (Inception_forward ref_library self [n, c, Suc h, Suc w] s) =
        Inr [n, c1 + snd c2 + snd c3 + c4, Suc h, Suc w]"
    using Inception_forward_ref_ok [where h = "Suc h" and w = "Suc w"] by fastforce
  show "map (\<lambda>self. fst (Inception_forward ref_library self [n, c, Suc h, Suc w] s))
        (inceptions (Sequential net)) =
      map (\<lambda>k. Inr [n, k, Suc h, Suc w])
        [64 + 128 + 32 + 32, 128 + 192 + 96 + 64, 192 + 208 + 48 + 64, 160 + 224 + 64 + 64,
         128 + 256 + 64 + 64, 112 + 288 + 64 + 64, 256 + 320 + 128 + 128,
         256 + 320 + 128 + 128, 384 + 384 + 128 + 128]"
    unfolding all using i [THEN ok] by simp
next
  show "[64 + 128 + 32 + 32, 128 + 192 + 96 + 64, 192 + 208 + 48 + 64, 160 + 224 + 64 + 64,
         128 + 256 + 64 + 64, 112 + 288 + 64 + 64, 256 + 320 + 128 + 128,
         256 + 320 + 128 + 128, 384 + 384 + 128 + 128]
       = [256, 480, 512, 512, 512, 528, 832, 832, 1024 :: nat]"
    by simp
qed


theorem C2_output_channels_are_sums_witness:
  "\<exists>self net.
     Inception_init ref_library 64 (96, 128) (16, 32) 32 [] = (Inr self, []) \<and>
     Inception_forward ref_library self [1, 192, 12, 12] [] = (Inr [1, 256, 12, 12], []) \<and>
     assemble ref_library [] = (Inr net, []) \<and>
     map (\<lambda>self. fst (Inception_forward ref_library self [1, 192, 12, 12] []))
        (inceptions (Sequential net)) =
       map (\<lambda>k. Inr [1, k, 12, 12]) [256, 480, 512, 512, 512, 528, 832, 832, 1024]"
proof -
  obtain self where i: "Inception_init ref_library 64 (96, 128) (16, 32) 32 [] = (Inr self, [])"
    by (simp add: Inception_init_ref_returnp returnp_eq_iff)
  obtain net where net: "assemble ref_library [] = (Inr net, [])"
    using assemble_ref_Inr [of "[]"] by blast
  show ?thesis
    using C2_output_channels_are_sums [where ?c1.0 = 64 and ?c2.0 = "(96, 128)" and ?c3.0 = "(16, 32)" and ?c4.0 = 32
        and ?s0.0 = "[]" and self = self and ?s1.0 = "[]" and n = 1 and c = 192 and h = 11
        and w = 11 and s = "[]" and ?t0.0 = "[]" and net = net and ?t1.0 = "[]"] i net
    by (intro exI [of _ self] exI [of _ net]) simp
qed

subsection \<open>The forward pass of the network and the shape-printing cell\<close>

lemma bindp_returnp_right [simp]: "bindp m returnp = m"
  by (auto simp: bindp_def returnp_def fun_eq_iff split: prod.splits sum.splits)

lemma forward_children_Nil_eta: "forward_children fw [] = returnp"
  by (rule ext) simp

lemma forward_children_Cons_eta:
  "forward_children fw (b # bs) = (\<lambda>x. bindp (forward fw b x) (forward_children fw bs))"
  by (rule ext) simp

lemma forward_Layer_eta: "forward fw (Layer l) = Block_call fw l"
  by (rule ext) simp

lemma forward_six:
  "forward fw (Sequential (h, [l1, l2, l3, l4, l5, l6])) x =
     bindp (forward fw l1 x) (\<lambda>x1.
     bindp (forward fw l2 x1) (\<lambda>x2.
     bindp (forward fw l3 x2) (\<lambda>x3.
     bindp (forward fw l4 x3) (\<lambda>x4.
     bindp (forward fw l5 x4) (\<lambda>x5.
     forward fw l6 x5)))))"
  by (simp add: forward_children_Cons_eta forward_children_Nil_eta)

lemma bindp_Inr: "m s = (Inr a, s1) \<Longrightarrow> f a s1 = r \<Longrightarrow> bindp m f s = r"
  by (simp add: bindp_def)

lemma shape_loop_forward_children:
  "shape_loop fw ls X out s = (Inr (X', out'), s') \<Longrightarrow>
   forward_children fw ls X s = (Inr X', s')"
proof (induction ls arbitrary: X out s)
  case Nil
  then show ?case by (simp add: returnp_eq_iff)
next
  case (Cons l ls)
  from Cons.prems obtain Y t where
    l: "forward fw l X s = (Inr Y, t)" and
    rest: "shape_loop fw ls Y
      (out @ [(Block_name fw (block_object l), ''output shape:'' @ [CHR 0x09], NDArray_shape fw Y)]) t
       = (Inr (X', out'), s')"
    by (auto simp: bindp_Inr_iff)
  from Cons.IH [OF rest] l show ?case by (auto simp: bindp_Inr_iff)
qed

lemma shape_loop_six:
  "shape_loop fw [l1, l2, l3, l4, l5, l6] X0 [] t1 = (Inr (X', out), s') \<longleftrightarrow>
     (\<exists>X1 X2 X3 X4 X5 t2 t3 t4 t5 t6.
        forward fw l1 X0 t1 = (Inr X1, t2) \<and>
        forward fw l2 X1 t2 = (Inr X2, t3) \<and>
        forward fw l3 X2 t3 = (Inr X3, t4) \<and>
        forward fw l4 X3 t4 = (Inr X4, t5) \<and>
        forward fw l5 X4 t5 = (Inr X5, t6) \<and>
        forward fw l6 X5 t6 = (Inr X', s') \<and>
        out =
          [(Block_name fw (block_object l1), ''output shape:'' @ [CHR 0x09], NDArray_shape fw X1),
           (Block_name fw (block_object l2), ''output shape:'' @ [CHR 0x09], NDArray_shape fw X2),
           (Block_name fw (block_object l3), ''output shape:'' @ [CHR 0x09], NDArray_shape fw X3),
           (Block_name fw (block_object l4), ''output shape:'' @ [CHR 0x09], NDArray_shape fw X4),
           (Block_name fw (block_object l5), ''output shape:'' @ [CHR 0x09], NDArray_shape fw X5),
           (Block_name fw (block_object l6), ''output shape:'' @ [CHR 0x09], NDArray_shape fw X')])"
  by (auto simp: bindp_Inr_iff returnp_eq_iff)

lemma window_eval:
  "window_shape n c h w k s p =
     (if s = 0 \<or> k = 0 \<or> h + 2 * p < k \<or> w + 2 * p < k then Inl Shape_error
      else Inr [n, c, (h + 2 * p - k) div s + 1, (w + 2 * p - k) div s + 1])"
  by (simp add: window_shape_def out_size_def)

lemma forward_b1_ref:
  assumes "build_b1 ref_library s0 = (Inr b, s1)"
  shows "forward ref_library (Sequential b) [n, c, 96, 96] s = (Inr [n, 64, 24, 24], s)"
  using assms
  by (auto simp: build_b1_iff returnp_eq_iff bindp_Pair ref_Block_call window_eval
      forward_Layer_eta)

lemma forward_b2_ref:
  assumes "build_b2 ref_library s0 = (Inr b, s1)"
  shows "forward ref_library (Sequential b) [n, c, 24, 24] s = (Inr [n, 192, 12, 12], s)"
  using assms
  by (auto simp: build_b2_iff returnp_eq_iff bindp_Pair ref_Block_call window_eval
      forward_Layer_eta)

lemma forward_b3_ref:
  assumes "build_b3 ref_library s0 = (Inr b, s1)"
  shows "forward ref_library (Sequential b) [n, c, 12, 12] s = (Inr [n, 480, 6, 6], s)"
proof -
  from assms obtain h i1 i2 l3 t1 t2 t3 t4 where
    i: "Inception_init ref_library 64 (96, 128) (16, 32) 32 t1 = (Inr i1, t2)"
       "Inception_init ref_library 128 (128, 192) (32, 96) 64 t3 = (Inr i2, t4)" and
    l: "l3 = MaxPool2D_obj 3 2 1" and b: "b = (h, [Incep i1, Incep i2, Layer l3])"
    unfolding build_b3_iff by (auto simp: returnp_eq_iff)
  show ?thesis
    unfolding b l
    by (simp add: bindp_Inr_iff Inception_forward_ref_ok [OF i(1)] Inception_forward_ref_ok [OF i(2)]
        window_eval returnp_eq_iff)
qed


lemma forward_b4_ref:
  assumes "build_b4 ref_library s0 = (Inr b, s1)"
  shows "forward ref_library (Sequential b) [n, c, 6, 6] s = (Inr [n, 832, 3, 3], s)"
proof -
  from assms obtain h i1 i2 i3 i4 i5 l6 t1 t2 t3 t4 t5 t6 where
    i: "Inception_init ref_library 192 (96, 208) (16, 48) 64 t1 = (Inr i1, t2)"
       "Inception_init ref_library 160 (112, 224) (24, 64) 64 t2 = (Inr i2, t3)"
       "Inception_init ref_library 128 (128, 256) (24, 64) 64 t3 = (Inr i3, t4)"
       "Inception_init ref_library 112 (144, 288) (32, 64) 64 t4 = (Inr i4, t5)"
       "Inception_init ref_library 256 (160, 320) (32, 128) 128 t5 = (Inr i5, t6)" and
    l: "l6 = MaxPool2D_obj 3 2 1" and
    b: "b = (h, [Incep i1, Incep i2, Incep i3, Incep i4, Incep i5, Layer l6])"
    unfolding build_b4_iff by (auto simp: returnp_eq_iff)
  show ?thesis
    unfolding b l
    by (simp add: bindp_Inr_iff i [THEN Inception_forward_ref_ok] window_eval returnp_eq_iff)
qed

lemma forward_b5_ref:
  assumes "build_b5 ref_library s0 = (Inr b, s1)"
  shows "forward ref_library (Sequential b) [n, c, 3, 3] s = (Inr [n, 1024, 1, 1], s)"
proof -
  from assms obtain h i1 i2 l3 t1 t2 t3 where
    i: "Inception_init ref_library 256 (160, 320) (32, 128) 128 t1 = (Inr i1, t2)"
       "Inception_init ref_library 384 (192, 384) (48, 128) 128 t2 = (Inr i2, t3)" and
    l: "l3 = GlobalAvgPool2D_obj" and b: "b = (h, [Incep i1, Incep i2, Layer l3])"
    unfolding build_b5_iff by (auto simp: returnp_eq_iff)
  show ?thesis
    unfolding b l
    by (simp add: bindp_Inr_iff i [THEN Inception_forward_ref_ok] returnp_eq_iff)
qed

lemma shape_cell_ref:
  assumes "assemble ref_library s0 = (Inr net, s1)"
  shows "shape_cell ref_library net s =
     (Inr ([1, 10],
        [(''sequential'', ''output shape:'' @ [CHR 0x09], [1, 64, 24, 24]),
         (''sequential'', ''output shape:'' @ [CHR 0x09], [1, 192, 12, 12]),
         (''sequential'', ''output shape:'' @ [CHR 0x09], [1, 480, 6, 6]),
         (''sequential'', ''output shape:'' @ [CHR 0x09], [1, 832, 3, 3]),
         (''sequential'', ''output shape:'' @ [CHR 0x09], [1, 1024, 1, 1]),
         (''dense'', ''output shape:'' @ [CHR 0x09], [1, 10])]), s)"
proof -
  from assms obtain b1 b2 b3 b4 b5 t1 t2 t3 t4 t5 where
    b: "build_b1 ref_library s0 = (Inr b1, t1)" "build_b2 ref_library t1 = (Inr b2, t2)"
       "build_b3 ref_library t2 = (Inr b3, t3)" "build_b4 ref_library t3 = (Inr b4, t4)"
       "build_b5 ref_library t4 = (Inr b5, t5)" and
    n: "build_net ref_library b1 b2 b3 b4 b5 t5 = (Inr net, s1)"
    unfolding assemble_iff by blast
  from n have net: "net = (Sequential_obj,
      [Sequential b1, Sequential b2, Sequential b3, Sequential b4, Sequential b5,
       Layer (Dense_obj 10)])"
    unfolding build_net_iff by (auto simp: returnp_eq_iff)
  have h: "fst b1 = Sequential_obj" "fst b2 = Sequential_obj" "fst b3 = Sequential_obj"
    "fst b4 = Sequential_obj" "fst b5 = Sequential_obj"
    using b unfolding build_b1_iff build_b2_iff build_b3_iff build_b4_iff build_b5_iff
    by (auto simp: returnp_eq_iff)
  have o: "block_object (Sequential b) = fst b" for b :: "obj sequential"
    by (cases b) simp
  show ?thesis
    unfolding shape_cell_def net
    by (simp add: bindp_Inr_iff returnp_eq_iff forward_b1_ref [OF b(1)] forward_b2_ref [OF b(2)]
        forward_b3_ref [OF b(3)] forward_b4_ref [OF b(4)] forward_b5_ref [OF b(5)] o h
        forward_Layer_eta del: forward.simps)
qed

text \<open>
  Claim C3. Whatever the library, an assembled \<^verbatim>\<open>net\<close> is a container with exactly six
  children, in this order: the five groups \<^verbatim>\<open>b1\<close> .. \<^verbatim>\<open>b5\<close>, each the result of its own
  cell, and a dense layer constructed with 10 outputs. Calling \<^verbatim>\<open>net\<close> on any input passes it
  through \<^verbatim>\<open>b1\<close>, \<^verbatim>\<open>b2\<close>, \<^verbatim>\<open>b3\<close>, \<^verbatim>\<open>b4\<close>, \<^verbatim>\<open>b5\<close> and the dense layer, each applied to
  the output of the one before.
\<close>

theorem C3_net_is_composition:
  assumes "assemble fw s = (Inr net, s')"
  shows "\<exists>b1 b2 b3 b4 b5 h d s1 s2 s3 s4 s5 s6.
     build_b1 fw s = (Inr b1, s1) \<and>
     build_b2 fw s1 = (Inr b2, s2) \<and>
     build_b3 fw s2 = (Inr b3, s3) \<and>
     build_b4 fw s3 = (Inr b4, s4) \<and>
     build_b5 fw s4 = (Inr b5, s5) \<and>
     nn_Sequential fw s5 = (Inr h, s6) \<and>
     nn_Dense fw 10 s6 = (Inr d, s') \<and>
     net = (h, [Sequential b1, Sequential b2, Sequential b3, Sequential b4, Sequential b5,
                Layer d]) \<and>
     (\<forall>x. forward fw (Sequential net) x =
        bindp (forward fw (Sequential b1) x) (\<lambda>x1.
        bindp (forward fw (Sequential b2) x1) (\<lambda>x2.
        bindp (forward fw (Sequential b3) x2) (\<lambda>x3.
        bindp (forward fw (Sequential b4) x3) (\<lambda>x4.
        bindp (forward fw (Sequential b5) x4) (\<lambda>x5.
        Block_call fw d x5))))))"
proof -
  from assms obtain b1 b2 b3 b4 b5 s1 s2 s3 s4 s5 where
    b: "build_b1 fw s = (Inr b1, s1)" "build_b2 fw s1 = (Inr b2, s2)"
       "build_b3 fw s2 = (Inr b3, s3)" "build_b4 fw s3 = (Inr b4, s4)"
       "build_b5 fw s4 = (Inr b5, s5)" and
    n: "build_net fw b1 b2 b3 b4 b5 s5 = (Inr net, s')"
    unfolding assemble_iff by blast
  from n obtain h d s6 where
    hd: "nn_Sequential fw s5 = (Inr h, s6)" "nn_Dense fw 10 s6 = (Inr d, s')" and
    net: "net = (h, [Sequential b1, Sequential b2, Sequential b3, Sequential b4, Sequential b5,
                Layer d])"
    unfolding build_net_iff by blast
  have "\<forall>x. forward fw (Sequential net) x =
        bindp (forward fw (Sequential b1) x) (\<lambda>x1.
        bindp (forward fw (Sequential b2) x1) (\<lambda>x2.
        bindp (forward fw (Sequential b3) x2) (\<lambda>x3.
        bindp (forward fw (Sequential b4) x3) (\<lambda>x4.
        bindp (forward fw (Sequential b5) x4) (\<lambda>x5.
        Block_call fw d x5)))))"
    unfolding net forward_six by (simp add: forward_Layer_eta)
  with b hd net show ?thesis by blast
qed


theorem C3_net_is_composition_witness:
  "\<exists>net. assemble ref_library [] = (Inr net, []) \<and>
     forward ref_library (Sequential net) [1, 1, 96, 96] [] = (Inr [1, 10], []) \<and>
     (\<exists>b1 b2 b3 b4 b5.
        snd net = [Sequential b1, Sequential b2, Sequential b3, Sequential b4, Sequential b5,
                   Layer (Dense_obj 10)] \<and>
        forward ref_library (Sequential b1) [1, 1, 96, 96] [] = (Inr [1, 64, 24, 24], []) \<and>
        forward ref_library (Sequential b2) [1, 64, 24, 24] [] = (Inr [1, 192, 12, 12], []) \<and>
        forward ref_library (Sequential b3) [1, 192, 12, 12] [] = (Inr [1, 480, 6, 6], []) \<and>
        forward ref_library (Sequential b4) [1, 480, 6, 6] [] = (Inr [1, 832, 3, 3], []) \<and>
        forward ref_library (Sequential b5) [1, 832, 3, 3] [] = (Inr [1, 1024, 1, 1], []) \<and>
        Block_call ref_library (Dense_obj 10) [1, 1024, 1, 1] [] = (Inr [1, 10], []))"
proof -
  obtain net where net: "assemble ref_library [] = (Inr net, [])"
    using assemble_ref_Inr [of "[]"] by blast
  from C3_net_is_composition [OF net] obtain b1 b2 b3 b4 b5 h d s1 s2 s3 s4 s5 s6 where
    b: "build_b1 ref_library [] = (Inr b1, s1)" "build_b2 ref_library s1 = (Inr b2, s2)"
       "build_b3 ref_library s2 = (Inr b3, s3)" "build_b4 ref_library s3 = (Inr b4, s4)"
       "build_b5 ref_library s4 = (Inr b5, s5)" and
    d: "nn_Dense ref_library 10 s6 = (Inr d, [])" and
    n: "net = (h, [Sequential b1, Sequential b2, Sequential b3, Sequential b4, Sequential b5,
                Layer d])" and
    f: "\<forall>x. forward ref_library (Sequential net) x =
        bindp (forward ref_library (Sequential b1) x) (\<lambda>x1.
        bindp (forward ref_library (Sequential b2) x1) (\<lambda>x2.
        bindp (forward ref_library (Sequential b3) x2) (\<lambda>x3.
        bindp (forward ref_library (Sequential b4) x3) (\<lambda>x4.
        bindp (forward ref_library (Sequential b5) x4) (\<lambda>x5.
        Block_call ref_library d x5)))))"
    by (elim exE conjE) (rule that)
  from d have d': "d = Dense_obj 10" by (simp add: returnp_eq_iff)
  have 1: "forward ref_library (Sequential b1) [1, 1, 96, 96] [] = (Inr [1, 64, 24, 24], [])"
    by (rule forward_b1_ref [OF b(1)])
  have 2: "forward ref_library (Sequential b2) [1, 64, 24, 24] [] = (Inr [1, 192, 12, 12], [])"
    by (rule forward_b2_ref [OF b(2)])
  have 3: "forward ref_library (Sequential b3) [1, 192, 12, 12] [] = (Inr [1, 480, 6, 6], [])"
    by (rule forward_b3_ref [OF b(3)])
  have 4: "forward ref_library (Sequential b4) [1, 480, 6, 6] [] = (Inr [1, 832, 3, 3], [])"
    by (rule forward_b4_ref [OF b(4)])
  have 5: "forward ref_library (Sequential b5) [1, 832, 3, 3] [] = (Inr [1, 1024, 1, 1], [])"
    by (rule forward_b5_ref [OF b(5)])
  have 6: "Block_call ref_library (Dense_obj 10) [1, 1024, 1, 1] [] = (Inr [1, 10], [])"
    by simp
  have whole: "forward ref_library (Sequential net) [1, 1, 96, 96] [] = (Inr [1, 10], [])"
    unfolding f [rule_format] d'
    by (rule bindp_Inr, rule 1, rule bindp_Inr, rule 2, rule bindp_Inr, rule 3,
        rule bindp_Inr, rule 4, rule bindp_Inr, rule 5, rule 6)
  have children: "snd net = [Sequential b1, Sequential b2, Sequential b3, Sequential b4,
      Sequential b5, Layer (Dense_obj 10)]"
    unfolding n d' by simp
  from net whole children 1 2 3 4 5 6 show ?thesis by blast
qed

text \<open>
  Claim C5. Whatever the library, when the shape-printing cell runs to its end on an
  assembled \<^verbatim>\<open>net\<close>: \<^verbatim>\<open>X\<close> starts as the result of \<^verbatim>\<open>nd.random.uniform\<close> for the shape
  (1, 1, 96, 96); the loop visits the six children of \<^verbatim>\<open>net\<close> in order; each step rebinds
  \<^verbatim>\<open>X\<close> to the output of the current child on the previous \<^verbatim>\<open>X\<close> and prints the child's name
  with the shape of that output; the final \<^verbatim>\<open>X\<close> is what \<^verbatim>\<open>net\<close> itself returns on the
  initial \<^verbatim>\<open>X\<close>.
\<close>

theorem C5_shape_loop:
  assumes "assemble fw s0 = (Inr net, s1)"
    and "shape_cell fw net s1 = (Inr (X', out), s')"
  shows "\<exists>h l1 l2 l3 l4 l5 l6 X0 X1 X2 X3 X4 X5 t0 t1 t2 t3 t4 t5 t6.
     net = (h, [l1, l2, l3, l4, l5, l6]) \<and>
     nd_random_uniform fw [1, 1, 96, 96] s1 = (Inr X0, t0) \<and>
     Block_initialize fw (Sequential net) None None None t0 = (Inr (), t1) \<and>
     forward fw l1 X0 t1 = (Inr X1, t2) \<and>
     forward fw l2 X1 t2 = (Inr X2, t3) \<and>
     forward fw l3 X2 t3 = (Inr X3, t4) \<and>
     forward fw l4 X3 t4 = (Inr X4, t5) \<and>
     forward fw l5 X4 t5 = (Inr X5, t6) \<and>
     forward fw l6 X5 t6 = (Inr X', s') \<and>
     out =
       [(Block_name fw (block_object l1), ''output shape:'' @ [CHR 0x09], NDArray_shape fw X1),
        (Block_name fw (block_object l2), ''output shape:'' @ [CHR 0x09], NDArray_shape fw X2),
        (Block_name fw (block_object l3), ''output shape:'' @ [CHR 0x09], NDArray_shape fw X3),
        (Block_name fw (block_object l4), ''output shape:'' @ [CHR 0x09], NDArray_shape fw X4),
        (Block_name fw (block_object l5), ''output shape:'' @ [CHR 0x09], NDArray_shape fw X5),
        (Block_name fw (block_object l6), ''output shape:'' @ [CHR 0x09], NDArray_shape fw X')] \<and>
     forward fw (Sequential net) X0 t1 = (Inr X', s')"
proof -
  from assemble_inceptions [OF assms(1)] obtain h l1 l2 l3 l4 l5 l6 where
    net: "net = (h, [l1, l2, l3, l4, l5, l6])"
    by (cases net) auto
  from assms(2) obtain X0 t0 t1 where
    X0: "nd_random_uniform fw [1, 1, 96, 96] s1 = (Inr X0, t0)" and
    ini: "Block_initialize fw (Sequential net) None None None t0 = (Inr (), t1)" and
    loop: "shape_loop fw [l1, l2, l3, l4, l5, l6] X0 [] t1 = (Inr (X', out), s')"
    unfolding shape_cell_def bindp_Inr_iff net by auto
  from shape_loop_forward_children [OF loop]
  have whole: "forward fw (Sequential net) X0 t1 = (Inr X', s')"
    unfolding net by simp
  from loop [unfolded shape_loop_six] net X0 ini whole show ?thesis by blast
qed



theorem C5_shape_loop_witness:
  "\<exists>net. assemble ref_library [] = (Inr net, []) \<and>
     shape_cell ref_library net [] =
       (Inr ([1, 10],
          [(''sequential'', ''output shape:'' @ [CHR 0x09], [1, 64, 24, 24]),
           (''sequential'', ''output shape:'' @ [CHR 0x09], [1, 192, 12, 12]),
           (''sequential'', ''output shape:'' @ [CHR 0x09], [1, 480, 6, 6]),
           (''sequential'', ''output shape:'' @ [CHR 0x09], [1, 832, 3, 3]),
           (''sequential'', ''output shape:'' @ [CHR 0x09], [1, 1024, 1, 1]),
           (''dense'', ''output shape:'' @ [CHR 0x09], [1, 10])]), []) \<and>
     length (snd net) = 6 \<and>
     nd_random_uniform ref_library [1, 1, 96, 96] [] = (Inr [1, 1, 96, 96], []) \<and>
     forward ref_library (Sequential net) [1, 1, 96, 96] [] = (Inr [1, 10], [])"
proof -
  obtain net where net: "assemble ref_library [] = (Inr net, [])"
    using assemble_ref_Inr [of "[]"] by blast
  note cell = shape_cell_ref [OF net, of "[]"]
  from C5_shape_loop [OF net cell] obtain h l1 l2 l3 l4 l5 l6 X0 t0 t1 where
    n: "net = (h, [l1, l2, l3, l4, l5, l6])" and
    X0: "nd_random_uniform ref_library [1, 1, 96, 96] [] = (Inr X0, t0)" and
    i: "Block_initialize ref_library (Sequential net) None None None t0 = (Inr (), t1)" and
    f: "forward ref_library (Sequential net) X0 t1 = (Inr [1, 10], [])"
    by (elim exE conjE) (rule that)
  from X0 i have "X0 = [1, 1, 96, 96]" "t0 = []" "t1 = []" by (simp_all add: returnp_eq_iff)
  with net cell n X0 f show ?thesis
    by (intro exI [of _ net]) simp
qed

subsection \<open>Failures\<close>







subsection \<open>Fixed weights and deferred initialisation\<close>





lemma deferred_Block_call [simp]: "Block_call deferred_library = d_call"
  by (simp add: deferred_library_def)

lemma deferred_nd_concat [simp]: "nd_concat deferred_library xs d st = (ref_concat xs d, st)"
  by (simp add: deferred_library_def)

lemma d_call_no_params: "\<not> has_params (snd l) \<Longrightarrow> snd (d_call l x s) = s"
  by (simp add: d_call_def)

lemma d_call_allocated:
  "map_of (d_params s) (fst l) = Some (Some c) \<Longrightarrow> snd (d_call l x s) = s"
  by (simp add: d_call_def)

lemma example_weights_fixed: "weights_fixed deferred_library example_block state_allocated"
  unfolding weights_fixed_def
  by (simp add: example_block_def state_allocated_def d_call_no_params d_call_allocated)









lemma run_forward_uninitialised:
  "Inception_forward deferred_library example_block [1, 192, 12, 12] state_constructed =
     (Inl Not_initialized, state_constructed)"
  by code_simp












subsection \<open>Hyperparameters\<close>

lemma training_cell_Inr_iff:
  "training_cell fw net s = (Inr r, s') \<longleftrightarrow>
     (\<exists>ctx xavier params trainer train_iter test_iter s1 s2 s3 s4 s5 s6.
        d2l_try_gpu fw s = (Inr ctx, s1) \<and>
        init_Xavier fw s1 = (Inr xavier, s2) \<and>
        Block_initialize fw (Sequential net) (Some True) (Some ctx) (Some xavier) s2 = (Inr (), s3) \<and>
        Block_collect_params fw (Sequential net) s3 = (Inr params, s4) \<and>
        gluon_Trainer fw params ''sgd'' [(''learning_rate'', 0.1)] s4 = (Inr trainer, s5) \<and>
        d2l_load_data_fashion_mnist fw 128 (Some 96) s5 = (Inr (train_iter, test_iter), s6) \<and>
        d2l_train_ch5 fw (Sequential net) train_iter test_iter 128 trainer ctx 5 s6 = (Inr r, s'))"
  by (auto simp: training_cell_def bindp_Inr_iff)

lemma ref_training_fields [simp]:
  "d2l_try_gpu ref_library = returnp Context_obj"
  "init_Xavier ref_library = returnp Xavier_obj"
  "Block_collect_params ref_library net = returnp Params_obj"
  "gluon_Trainer ref_library params optimizer optimizer_params =
     returnp (Trainer_obj params optimizer optimizer_params)"
  "d2l_load_data_fashion_mnist ref_library batch_size resize =
     returnp (DataLoader_obj True batch_size resize, DataLoader_obj False batch_size resize)"
  "d2l_train_ch5 ref_library net train_iter test_iter batch_size trainer ctx num_epochs st =
     (Inr (), st @ [\<lparr>run_net = net, run_train_iter = train_iter, run_test_iter = test_iter,
                       run_batch_size = batch_size, run_trainer = trainer, run_ctx = ctx,
                       run_num_epochs = num_epochs\<rparr>])"
  by (simp_all add: ref_library_def)

lemma assemble_ref:
  "assemble ref_library s =
     (let relu = Some ''relu'';
          inception = (\<lambda>c1 c2 c3 c4.
            Incep \<lparr>block_base = Block_obj,
                   p1_1 = Conv2D_obj c1 1 None None relu,
                   p2_1 = Conv2D_obj (fst c2) 1 None None relu,
                   p2_2 = Conv2D_obj (snd c2) 3 None (Some 1) relu,
                   p3_1 = Conv2D_obj (fst c3) 1 None None relu,
                   p3_2 = Conv2D_obj (snd c3) 5 None (Some 2) relu,
                   p4_1 = MaxPool2D_obj 3 1 1,
                   p4_2 = Conv2D_obj c4 1 None None relu\<rparr>)
      in (Inr (Sequential_obj,
           [Sequential (Sequential_obj,
              [Layer (Conv2D_obj 64 7 (Some 2) (Some 3) relu),
               Layer (MaxPool2D_obj 3 2 1)]),
            Sequential (Sequential_obj,
              [Layer (Conv2D_obj 64 1 None None relu),
               Layer (Conv2D_obj 192 3 None (Some 1) relu),
               Layer (MaxPool2D_obj 3 2 1)]),
            Sequential (Sequential_obj,
              [inception 64 (96, 128) (16, 32) 32,
               inception 128 (128, 192) (32, 96) 64,
               Layer (MaxPool2D_obj 3 2 1)]),
            Sequential (Sequential_obj,
              [inception 192 (96, 208) (16, 48) 64,
               inception 160 (112, 224) (24, 64) 64,
               inception 128 (128, 256) (24, 64) 64,
               inception 112 (144, 288) (32, 64) 64,
               inception 256 (160, 320) (32, 128) 128,
               Layer (MaxPool2D_obj 3 2 1)]),
            Sequential (Sequential_obj,
              [inception 256 (160, 320) (32, 128) 128,
               inception 384 (192, 384) (48, 128) 128,
               Layer GlobalAvgPool2D_obj]),
            Layer (Dense_obj 10)]), s))"
  by (simp add: assemble_def build_b1_def build_b2_def build_b3_def build_b4_def build_b5_def
      build_net_def Inception_init_ref_returnp returnp_eq_iff Let_def)

text \<open>
  Claim C9. Whatever the library and its state, the training cell completes exactly when
  its calls complete with these arguments: the optimizer parameters
  \<open>[(learning_rate, 0.1)]\<close>, the batch size 128 for the data loader and for the training
  function, and 5 epochs. In the shape interpretation, where an object is the constructor
  call that made it, the assembled network is the same for every state, and every channel
  count, kernel size, stride and padding in it is the number written at the call site.
\<close>

theorem C9_hyperparameters_are_literals:
  "(training_cell fw net s = (Inr r, s') \<longleftrightarrow>
   (\<exists>ctx xavier params trainer train_iter test_iter s1 s2 s3 s4 s5 s6.
        d2l_try_gpu fw s = (Inr ctx, s1) \<and>
        init_Xavier fw s1 = (Inr xavier, s2) \<and>
        Block_initialize fw (Sequential net) (Some True) (Some ctx) (Some xavier) s2 = (Inr (), s3) \<and>
        Block_collect_params fw (Sequential net) s3 = (Inr params, s4) \<and>
        gluon_Trainer fw params ''sgd'' [(''learning_rate'', 0.1)] s4 = (Inr trainer, s5) \<and>
        d2l_load_data_fashion_mnist fw 128 (Some 96) s5 = (Inr (train_iter, test_iter), s6) \<and>
        d2l_train_ch5 fw (Sequential net) train_iter test_iter 128 trainer ctx 5 s6 = (Inr r, s')))
   \<and>
   assemble ref_library t =
   (let relu = Some ''relu'';
          inception = (\<lambda>c1 c2 c3 c4.
            Incep \<lparr>block_base = Block_obj,
                   p1_1 = Conv2D_obj c1 1 None None relu,
                   p2_1 = Conv2D_obj (fst c2) 1 None None relu,
                   p2_2 = Conv2D_obj (snd c2) 3 None (Some 1) relu,
                   p3_1 = Conv2D_obj (fst c3) 1 None None relu,
                   p3_2 = Conv2D_obj (snd c3) 5 None (Some 2) relu,
                   p4_1 = MaxPool2D_obj 3 1 1,
                   p4_2 = Conv2D_obj c4 1 None None relu\<rparr>)
      in (Inr (Sequential_obj,
           [Sequential (Sequential_obj,
              [Layer (Conv2D_obj 64 7 (Some 2) (Some 3) relu),
               Layer (MaxPool2D_obj 3 2 1)]),
            Sequential (Sequential_obj,
              [Layer (Conv2D_obj 64 1 None None relu),
               Layer (Conv2D_obj 192 3 None (Some 1) relu),
               Layer (MaxPool2D_obj 3 2 1)]),
            Sequential (Sequential_obj,
              [inception 64 (96, 128) (16, 32) 32,
               inception 128 (128, 192) (32, 96) 64,
               Layer (MaxPool2D_obj 3 2 1)]),
            Sequential (Sequential_obj,
              [inception 192 (96, 208) (16, 48) 64,
               inception 160 (112, 224) (24, 64) 64,
               inception 128 (128, 256) (24, 64) 64,
               inception 112 (144, 288) (32, 64) 64,
               inception 256 (160, 320) (32, 128) 128,
               Layer (MaxPool2D_obj 3 2 1)]),
            Sequential (Sequential_obj,
              [inception 256 (160, 320) (32, 128) 128,
               inception 384 (192, 384) (48, 128) 128,
               Layer GlobalAvgPool2D_obj]),
            Layer (Dense_obj 10)]), t))"
  using training_cell_Inr_iff [of fw net s r s'] assemble_ref [of t] by (intro conjI)

theorem C9_hyperparameters_are_literals_witness:
  "\<exists>net. assemble ref_library [] = (Inr net, []) \<and>
     training_cell ref_library net [] =
       (Inr (),
        [\<lparr>run_net = Sequential net,
          run_train_iter = DataLoader_obj True 128 (Some 96),
          run_test_iter = DataLoader_obj False 128 (Some 96),
          run_batch_size = 128,
          run_trainer = Trainer_obj Params_obj ''sgd'' [(''learning_rate'', 0.1)],
          run_ctx = Context_obj,
          run_num_epochs = 5\<rparr>])"
proof -
  obtain net where net: "assemble ref_library [] = (Inr net, [])"
    using assemble_ref_Inr [of "[]"] by blast
  have "training_cell ref_library net [] =
       (Inr (),
        [\<lparr>run_net = Sequential net,
          run_train_iter = DataLoader_obj True 128 (Some 96),
          run_test_iter = DataLoader_obj False 128 (Some 96),
          run_batch_size = 128,
          run_trainer = Trainer_obj Params_obj ''sgd'' [(''learning_rate'', 0.1)],
          run_ctx = Context_obj,
          run_num_epochs = 5\<rparr>])"
    unfolding C9_hyperparameters_are_literals [THEN conjunct1]
    by (simp add: returnp_eq_iff)
  with net show ?thesis by blast
qed

end
